theory Spec2Isabelle
  imports Main "HOL-Library.AList" "HOL-Library.Word"
begin

section \<open>Strings\<close>

text \<open>
  A JavaScript string is modelled as a \<open>string\<close>, one \<open>char\<close> for each code unit,
  which covers the strings over U+0000 to U+00FF.  The characters beyond U+00FF that the
  source writes in the literals of its message texts (the dash of the cooldown notice, the
  warning sign, the typing cursor and the left-to-right mark) are given by their UTF-8
  bytes; the model only appends and compares these texts.  The functions below are the string methods the bot uses: \<^verbatim>\<open>split\<close>
  on a one-character separator, \<^verbatim>\<open>join\<close>, \<^verbatim>\<open>trim\<close>,
  \<^verbatim>\<open>split(/\s+/)\<close>, \<^verbatim>\<open>toLowerCase\<close> (on the letters up to U+00FF),
  \<^verbatim>\<open>startsWith\<close> and the decimal rendering of a number.
\<close>

definition nl :: string where
  "nl = [CHR 0x0A]"

fun split :: "char \<Rightarrow> string \<Rightarrow> string list" where
  "split c [] = [[]]"
| "split c (x # xs) =
     (if x = c then [] # split c xs
      else (case split c xs of [] \<Rightarrow> [[x]] | w # ws \<Rightarrow> (x # w) # ws))"

fun join :: "string \<Rightarrow> string list \<Rightarrow> string" where
  "join sep [] = []"
| "join sep [x] = x"
| "join sep (x # y # ys) = x @ sep @ join sep (y # ys)"

definition isSpace :: "char \<Rightarrow> bool" where
  "isSpace c = (c \<in> {CHR '' '', CHR 0x09, CHR 0x0A, CHR 0x0B, CHR 0x0C, CHR 0x0D, CHR 0xA0})"

definition trim :: "string \<Rightarrow> string" where
  "trim s = rev (dropWhile isSpace (rev (dropWhile isSpace s)))"

fun splitWs :: "string \<Rightarrow> string list" where
  "splitWs [] = [[]]"
| "splitWs (x # xs) =
     (if isSpace x then
        (case xs of
           [] \<Rightarrow> [[], []]
         | y # ys \<Rightarrow> if isSpace y then splitWs xs else [] # splitWs xs)
      else (case splitWs xs of [] \<Rightarrow> [[x]] | w # ws \<Rightarrow> (x # w) # ws))"

definition toLowerChar :: "char \<Rightarrow> char" where
  "toLowerChar c =
     (let n = (of_char c :: nat)
      in if (65 \<le> n \<and> n \<le> 90) \<or> (192 \<le> n \<and> n \<le> 222 \<and> n \<noteq> 215)
         then char_of (n + 32) else c)"

definition toLowerCase :: "string \<Rightarrow> string" where
  "toLowerCase s = map toLowerChar s"

definition startsWith :: "string \<Rightarrow> string \<Rightarrow> bool" where
  "startsWith s pre = (take (length pre) s = pre)"

fun showNat :: "nat \<Rightarrow> string" where
  "showNat n =
     (if n < 10 then [char_of (48 + n)]
      else showNat (n div 10) @ [char_of (48 + n mod 10)])"

declare showNat.simps [simp del]

text \<open>
  Truthiness of a string (\<open>falsy\<close>: it is empty) and of a value that is a string or
  null/undefined (\<open>truthy\<close>: it is a non-empty string).
\<close>

definition falsy :: "string \<Rightarrow> bool" where
  "falsy s = (s = [])"

fun truthy :: "string option \<Rightarrow> bool" where
  "truthy None = False"
| "truthy (Some s) = (s \<noteq> [])"

section \<open>Identifiers\<close>

text \<open>
  Guild, channel and user identifiers are JavaScript strings.  The policy stores test
  them with \<^verbatim>\<open>!id\<close>, which for a string holds exactly for the empty one.
\<close>

type_synonym snowflake = string


section \<open>Channel policy store (toggle module)\<close>

text \<open>
  \<^verbatim>\<open>disabledChannels\<close> and \<^verbatim>\<open>enabledChannels\<close> are
  \<^verbatim>\<open>Map<guildId, Set<channelId>>\<close>.  A JavaScript \<^verbatim>\<open>Set\<close> is finite, so
  \<^verbatim>\<open>es.size > 0\<close> is non-emptiness.
\<close>

record toggle =
  disabledChannels :: "snowflake \<rightharpoonup> snowflake set"
  enabledChannels :: "snowflake \<rightharpoonup> snowflake set"

definition isChannelEnabled :: "toggle \<Rightarrow> snowflake \<Rightarrow> snowflake \<Rightarrow> bool" where
  "isChannelEnabled t guildId channelId =
     (if falsy guildId \<or> falsy channelId then True
      else if (case disabledChannels t guildId of None \<Rightarrow> False | Some ds \<Rightarrow> channelId \<in> ds)
        then False
      else (case enabledChannels t guildId of
              None \<Rightarrow> True
            | Some es \<Rightarrow> if es \<noteq> {} then channelId \<in> es else True))"

text \<open>The sets a guild has in the two stores; a guild never referred to has empty ones.\<close>

definition disabledOf :: "toggle \<Rightarrow> snowflake \<Rightarrow> snowflake set" where
  "disabledOf t g = (case disabledChannels t g of None \<Rightarrow> {} | Some ds \<Rightarrow> ds)"

definition whitelistOf :: "toggle \<Rightarrow> snowflake \<Rightarrow> snowflake set" where
  "whitelistOf t g = (case enabledChannels t g of None \<Rightarrow> {} | Some es \<Rightarrow> es)"

text \<open>
  The channel-policy invariant as the specification words it: a disabled channel is
  never permitted; otherwise a non-empty whitelist decides; otherwise the channel is
  permitted.
\<close>

definition channelPolicy :: "snowflake set \<Rightarrow> snowflake set \<Rightarrow> snowflake \<Rightarrow> bool" where
  "channelPolicy disabled whitelist c =
     (if c \<in> disabled then False
      else if whitelist \<noteq> {} then c \<in> whitelist
      else True)"

section \<open>Protection policy store (firewall module)\<close>

text \<open>
  The firewall's \<^verbatim>\<open>Map<guildId, Set<userId>>\<close>.  \<open>ensure\<close> creates the
  guild's set on first reference and the operations work on that set.
\<close>

type_synonym firewall = "snowflake \<rightharpoonup> snowflake set"

definition ensure :: "firewall \<Rightarrow> snowflake \<Rightarrow> firewall" where
  "ensure m guildId = (if m guildId = None then m(guildId \<mapsto> {}) else m)"

definition protect :: "firewall \<Rightarrow> snowflake \<Rightarrow> snowflake \<Rightarrow> firewall" where
  "protect m guildId userId =
     (if falsy guildId \<or> falsy userId then m
      else (let m' = ensure m guildId;
                s = (case m' guildId of None \<Rightarrow> {} | Some s \<Rightarrow> s)
            in m'(guildId \<mapsto> insert userId s)))"

definition unprotect :: "firewall \<Rightarrow> snowflake \<Rightarrow> snowflake \<Rightarrow> firewall" where
  "unprotect m guildId userId =
     (if falsy guildId \<or> falsy userId then m
      else (let m' = ensure m guildId;
                s = (case m' guildId of None \<Rightarrow> {} | Some s \<Rightarrow> s)
            in m'(guildId \<mapsto> s - {userId})))"

definition isProtected :: "firewall \<Rightarrow> snowflake \<Rightarrow> snowflake \<Rightarrow> bool" where
  "isProtected m guildId userId =
     (if falsy guildId \<or> falsy userId then False
      else (case m guildId of None \<Rightarrow> False | Some s \<Rightarrow> userId \<in> s))"

section \<open>Handler results and messages\<close>

text \<open>
  An embed as the bot builds it, the result object of the hack handler, and the values a
  handler may return: an embed, an object with \<^verbatim>\<open>hack === true\<close>, or any other
  value (a string, null or undefined, an array, or something else, kept as its
  \<^verbatim>\<open>String()\<close> coercion).  Record fields carry a prefix; \<open>hr_targetMemberId\<close>
  and \<open>hr_guildId\<close> are \<^verbatim>\<open>_targetMemberId\<close> and \<^verbatim>\<open>_guildId\<close>.
\<close>

record field =
  f_name :: string
  f_value :: string
  f_inline :: bool

record embed =
  e_title :: "string option"
  e_description :: "string option"
  e_color :: nat
  e_footer :: "string option"
  e_thumbnail :: "string option"
  e_fields :: "field list"

record hackresult =
  hr_avatar :: "string option"
  hr_typedFields :: "field list"
  hr_renamed :: bool
  hr_mutualServersCached :: "nat option"
  hr_activity :: "string option"
  hr_targetMemberId :: "string option"
  hr_guildId :: "string option"
  hr_name :: "string option"
  hr_tag :: "string option"
  hr_id :: "string option"
  hr_createdAt :: "string option"
  hr_joinedAt :: "string option"

record hack =
  h_progress :: "string list"
  h_result :: "hackresult option"
  h_error :: "string option"

datatype jsval = JStr string | JNull | JArr "jsval list" | JOther string

datatype handler_output = OEmbed embed | OHack hack | OVal jsval

text \<open>
  What the bot does to the outside world is recorded as a list of actions, in order:
  messages sent to the channel, edits of the \<open>n\<close>-th message sent by the current
  render, pauses, member look-ups, nickname changes, direct messages to a member, and the
  invocation of a command handler.  \<open>JsonMsg\<close> is the text
  \<^verbatim>\<open>JSON.stringify(output)\<close>.
\<close>

datatype payload = EmbedMsg embed | TextMsg string | JsonMsg handler_output

datatype action =
    Send payload
  | Edit nat embed
  | Sleep nat
  | FetchMember string string
  | SetNickname string string
  | SendDM string string
  | Invoke string

text \<open>
  Calls to Discord can fail.  \<open>succeeds env k\<close> tells whether the call recorded at
  position \<open>k\<close> of the render's action list succeeds; it is consulted wherever a
  failure changes what the renderer does next (a failed edit inside
  \<^verbatim>\<open>try { ... } catch (_) {}\<close> changes nothing).  \<open>hasGuild\<close> tells whether
  the guild of a hack result is available to the client.
\<close>

record renv =
  succeeds :: "nat \<Rightarrow> bool"
  hasGuild :: bool

section \<open>Terminal renderer\<close>

text \<open>
  \<^verbatim>\<open>sendTerminalResponse\<close>, branch by branch.  The limits that discord.js itself
  puts on an embed (lengths, number of fields) are outside the model.
\<close>

definition VERSION :: string where
  "VERSION = ''1.4.2''"

definition HACK_DELAY_MS :: nat where
  "HACK_DELAY_MS = 120"

definition DEFAULT_DELAY_MS :: nat where
  "DEFAULT_DELAY_MS = 140"

definition TYPING_CHAR_MS :: nat where
  "TYPING_CHAR_MS = 8"

definition TYPING_BETWEEN_FIELDS_MS :: nat where
  "TYPING_BETWEEN_FIELDS_MS = 180"

definition TYPING_CURSOR :: string where
  "TYPING_CURSOR = [CHR 0xE2, CHR 0x96, CHR 0x8C]"

definition BLANK :: string where
  "BLANK = [CHR 0xE2, CHR 0x80, CHR 0x8E]"

definition footerText :: string where
  "footerText = ''Terminal v'' @ VERSION"

definition termEmbed :: "string \<Rightarrow> embed" where
  "termEmbed desc =
     \<lparr>e_title = None, e_description = Some desc, e_color = 0x000000,
      e_footer = Some footerText, e_thumbnail = None, e_fields = []\<rparr>"

definition placeholder :: "string \<Rightarrow> string" where
  "placeholder promptLine = ''```text'' @ nl @ promptLine @ nl @ nl @ ''```''"

definition withBody :: "string \<Rightarrow> string \<Rightarrow> string" where
  "withBody promptLine body = ''```text'' @ nl @ promptLine @ nl @ nl @ body @ nl @ ''```''"

definition failEmbed :: "string \<Rightarrow> embed" where
  "failEmbed err =
     \<lparr>e_title = Some ''Hack failed'', e_description = Some err, e_color = 0xAA1111,
      e_footer = Some footerText, e_thumbnail = None, e_fields = []\<rparr>"

text \<open>The last-resort send of the \<^verbatim>\<open>catch\<close> block.\<close>

definition fallback :: "handler_output \<Rightarrow> action list" where
  "fallback output = [Send (case output of OVal (JStr s) \<Rightarrow> TextMsg s | _ \<Rightarrow> JsonMsg output)]"

text \<open>
  The lines of a plain output: \<^verbatim>\<open>flatMap\<close> over an array, splitting string
  elements on newlines and turning any other element into one empty line; a string split
  on newlines; one empty line for null; otherwise the value's string coercion.
\<close>

fun elementLines :: "jsval \<Rightarrow> string list" where
  "elementLines (JStr l) = split CHR 0x0A l"
| "elementLines _ = [[]]"

fun normalize :: "handler_output \<Rightarrow> string list" where
  "normalize (OVal (JArr xs)) = concat (map elementLines xs)"
| "normalize (OVal (JStr s)) = split CHR 0x0A s"
| "normalize (OVal JNull) = [[]]"
| "normalize (OVal (JOther s)) = [s]"
| "normalize _ = [''[object Object]'']"

fun progressEdits :: "string \<Rightarrow> nat \<Rightarrow> string list \<Rightarrow> action list" where
  "progressEdits promptLine delay [] = []"
| "progressEdits promptLine delay (line # ls) =
     [Edit 0 (termEmbed (withBody promptLine line)), Sleep delay]
     @ progressEdits promptLine delay ls"

fun animateLines :: "nat \<Rightarrow> string \<Rightarrow> nat \<Rightarrow> string list \<Rightarrow> string list \<Rightarrow> action list" where
  "animateLines m promptLine delay chunk [] = []"
| "animateLines m promptLine delay chunk (line # ls) =
     [Sleep delay, Edit m (termEmbed (withBody promptLine (join nl (chunk @ [line]))))]
     @ animateLines m promptLine delay (chunk @ [line]) ls"

text \<open>
  The part of \<^verbatim>\<open>sendTerminalResponse\<close> below the comment "Normal (non-hack) output".
  \<open>pre\<close> is what the call has done before reaching it and \<open>m\<close> the number of
  messages it has sent so far.
\<close>

definition plainFlow ::
  "renv \<Rightarrow> action list \<Rightarrow> nat \<Rightarrow> string \<Rightarrow> handler_output \<Rightarrow> bool \<Rightarrow> nat \<Rightarrow> action list" where
  "plainFlow env pre m promptLine output animate delay =
     (let lines = normalize output;
          sent = pre @ [Send (EmbedMsg (termEmbed (placeholder promptLine)))]
      in if \<not> succeeds env (length pre) then sent @ fallback output
         else if \<not> animate then
           (let full = withBody promptLine (join nl lines)
            in if succeeds env (length sent) then sent @ [Edit m (termEmbed full)]
               else sent @ [Edit m (termEmbed full)] @ fallback output)
         else sent @ animateLines m promptLine delay [] lines)"

text \<open>
  The staged reveal of a hack result: the fields already typed, the field being typed
  with its cursor, blanks for the later fields, and the rename status last.
\<close>

definition renamePending :: "bool \<Rightarrow> field" where
  "renamePending rn =
     \<lparr>f_name = ''Rename'',
      f_value = (if rn then ''Applying...'' else ''Rename not applied''),
      f_inline = False\<rparr>"

definition renameFinal :: "bool \<Rightarrow> field" where
  "renameFinal rn =
     \<lparr>f_name = ''Rename'',
      f_value = (if rn then ''Member renamed to '' @ [CHR 0x27] @ ''Hacked'' @ [CHR 0x27]
                              @ '' (applied)''
                 else ''Rename not applied''),
      f_inline = False\<rparr>"

definition doneField :: "field \<Rightarrow> field" where
  "doneField f = \<lparr>f_name = f_name f, f_value = take 1024 (f_value f), f_inline = f_inline f\<rparr>"

definition blankField :: "field \<Rightarrow> field" where
  "blankField f = \<lparr>f_name = f_name f, f_value = BLANK, f_inline = f_inline f\<rparr>"

fun typeChars ::
  "embed \<Rightarrow> field list \<Rightarrow> field \<Rightarrow> field list \<Rightarrow> bool \<Rightarrow> nat \<Rightarrow> string \<Rightarrow> string
     \<Rightarrow> action list" where
  "typeChars emb done f later rn c current [] = []"
| "typeChars emb done f later rn c current (ch # chars) =
     [Edit 1 (emb\<lparr>e_fields :=
                map doneField done
                @ [\<lparr>f_name = f_name f,
                    f_value = (current @ [ch]) @ (if c mod 2 = 0 then TYPING_CURSOR else []),
                    f_inline = f_inline f\<rparr>]
                @ map blankField later
                @ [renamePending rn]\<rparr>),
      Sleep TYPING_CHAR_MS]
     @ typeChars emb done f later rn (c + 1) (current @ [ch]) chars"

fun typeFields :: "embed \<Rightarrow> field list \<Rightarrow> field list \<Rightarrow> bool \<Rightarrow> action list" where
  "typeFields emb done [] rn = []"
| "typeFields emb done (f # later) rn =
     typeChars emb done f later rn 0 [] (take 1024 (f_value f))
     @ [Edit 1 (emb\<lparr>e_fields :=
                  map doneField done @ [doneField f] @ map blankField later
                  @ [renamePending rn]\<rparr>),
        Sleep TYPING_BETWEEN_FIELDS_MS]
     @ typeFields emb (done @ [f]) later rn"

fun findIndex :: "('a \<Rightarrow> bool) \<Rightarrow> 'a list \<Rightarrow> nat option" where
  "findIndex P [] = None"
| "findIndex P (x # xs) =
     (if P x then Some 0 else map_option Suc (findIndex P xs))"

definition optField :: "string \<Rightarrow> string option \<Rightarrow> bool \<Rightarrow> field list" where
  "optField n v inl =
     (case v of
        None \<Rightarrow> []
      | Some s \<Rightarrow> if s = [] then [] else [\<lparr>f_name = n, f_value = s, f_inline = inl\<rparr>])"

definition finalFields :: "hackresult \<Rightarrow> bool \<Rightarrow> field list" where
  "finalFields final rn =
     (let shown = map doneField (hr_typedFields final) @ [renamePending rn]
      in (case findIndex (\<lambda>f. toLowerCase (f_name f) = ''rename'') shown of
            Some i \<Rightarrow> shown[i := renameFinal rn]
          | None \<Rightarrow> shown @ [renameFinal rn])
         @ (case hr_mutualServersCached final of
              None \<Rightarrow> []
            | Some n \<Rightarrow>
                [\<lparr>f_name = ''Mutual servers (cached)'', f_value = showNat n, f_inline = True\<rparr>])
         @ optField ''Activity (raw)'' (hr_activity final) True)"

text \<open>
  The rename attempt: \<open>p\<close> is the position of its first Discord call.  It returns the
  value left in \<^verbatim>\<open>final.renamed\<close> and the calls made.
\<close>

definition renameAttempt :: "renv \<Rightarrow> nat \<Rightarrow> hackresult \<Rightarrow> bool \<times> action list" where
  "renameAttempt env p final =
     (case (hr_guildId final, hr_targetMemberId final) of
        (Some g, Some t) \<Rightarrow>
          if g \<noteq> [] \<and> t \<noteq> [] then
            (if hasGuild env then
               (if succeeds env p
                then (succeeds env (p + 1), [FetchMember g t, SetNickname t ''Hacked''])
                else (False, [FetchMember g t]))
             else (False, []))
          else (hr_renamed final, [])
      | _ \<Rightarrow> (hr_renamed final, []))"

definition resultEmbed :: "hackresult \<Rightarrow> embed" where
  "resultEmbed final =
     \<lparr>e_title = Some ''Hack result'', e_description = None, e_color = 0x222222,
      e_footer = Some footerText,
      e_thumbnail = (if truthy (hr_avatar final) then hr_avatar final else None),
      e_fields = []\<rparr>"

definition hackResultFlow ::
  "renv \<Rightarrow> action list \<Rightarrow> handler_output \<Rightarrow> hackresult \<Rightarrow> action list" where
  "hackResultFlow env pre output final =
     (let (rn, calls) = renameAttempt env (length pre) final;
          pre2 = pre @ calls;
          emb = resultEmbed final
      in if hr_typedFields final = [] then
           pre2 @ [Send (EmbedMsg (emb\<lparr>e_fields :=
                     optField ''Name'' (hr_name final) True
                     @ optField ''Tag'' (hr_tag final) True
                     @ optField ''ID'' (hr_id final) True
                     @ optField ''Account created'' (hr_createdAt final) False
                     @ optField ''Server joined'' (hr_joinedAt final) False
                     @ [renameFinal rn]\<rparr>))]
         else
           (let sent = pre2 @ [Send (EmbedMsg (emb\<lparr>e_fields :=
                                 map blankField (hr_typedFields final) @ [renamePending rn]\<rparr>))]
            in if \<not> succeeds env (length pre2) then sent @ fallback output
               else sent @ typeFields emb [] (hr_typedFields final) rn
                    @ [Edit 1 (emb\<lparr>e_fields := finalFields final rn\<rparr>)]))"

text \<open>\<^verbatim>\<open>output.error || null\<close>: an empty error string counts as no error.\<close>

definition errorOf :: "hack \<Rightarrow> string option" where
  "errorOf h = (case h_error h of None \<Rightarrow> None | Some e \<Rightarrow> if e = [] then None else Some e)"

definition sendTerminalResponse ::
  "renv \<Rightarrow> string \<Rightarrow> handler_output \<Rightarrow> bool \<Rightarrow> nat \<Rightarrow> action list" where
  "sendTerminalResponse env promptLine output animate delay =
     (case output of
        OEmbed e \<Rightarrow>
          (let header = \<lparr>e_title = None,
                         e_description = Some (''```text'' @ nl @ promptLine @ nl @ ''```''),
                         e_color = 0x000000, e_footer = Some footerText,
                         e_thumbnail = None, e_fields = []\<rparr>
           in if succeeds env 0 then [Send (EmbedMsg header), Send (EmbedMsg e)]
              else [Send (EmbedMsg header)] @ fallback output)
      | OHack h \<Rightarrow>
          (let sent = [Send (EmbedMsg (termEmbed (placeholder promptLine)))]
           in if \<not> succeeds env 0 then sent @ fallback output
              else
                (let pre = sent @ progressEdits promptLine delay (h_progress h)
                 in case errorOf h of
                      Some err \<Rightarrow> pre @ [Send (EmbedMsg (failEmbed err))]
                    | None \<Rightarrow>
                        (case h_result h of
                           Some final \<Rightarrow> hackResultFlow env pre output final
                         | None \<Rightarrow> plainFlow env pre 1 promptLine output animate delay)))
      | OVal v \<Rightarrow> plainFlow env [] 0 promptLine output animate delay)"



section \<open>Dispatcher (messageCreate)\<close>

text \<open>
  Only the fields of a Discord message that the dispatcher and the handlers read.
  \<open>guild_id\<close> is \<open>None\<close> for a direct message (\<^verbatim>\<open>message.guild\<close> is null).
\<close>

record message =
  author_id :: snowflake
  author_bot :: bool
  author_username :: string
  author_tag :: string
  content :: string
  guild_id :: "snowflake option"
  guild_name :: string
  channel_id :: snowflake

text \<open>
  The module-level stores of the bot, passed explicitly.  \<open>now\<close> below is the value
  of \<^verbatim>\<open>Date.now()\<close> while the message is handled, in milliseconds.
\<close>

record bstate =
  lastUsed :: "snowflake \<rightharpoonup> int"
  cwdPerUser :: "snowflake \<rightharpoonup> string"
  historyPerUser :: "snowflake \<rightharpoonup> string list"
  filesPerUser :: "snowflake \<rightharpoonup> string set"
  sudoState :: "snowflake \<rightharpoonup> bool"
  toggleModule :: toggle
  firewallMap :: firewall

record invocation =
  inv_message :: message
  inv_args :: "string list"
  inv_rest :: string

text \<open>
  A registered handler is arbitrary JavaScript: it may throw (\<open>Inl\<close>), change the
  stores and call Discord.
\<close>

type_synonym handler =
  "invocation \<Rightarrow> bstate \<Rightarrow> (string + handler_output) \<times> bstate \<times> action list"

definition PREFIX :: string where
  "PREFIX = ''$''"

definition COOLDOWN :: int where
  "COOLDOWN = 600"

definition COOLDOWN_NOTICE :: string where
  "COOLDOWN_NOTICE =
     ''You are doing commands too fast '' @ [CHR 0xE2, CHR 0x80, CHR 0x94] @ '' slow down.''"

definition isOnCooldown :: "bstate \<Rightarrow> int \<Rightarrow> snowflake \<Rightarrow> bool" where
  "isOnCooldown st now uid =
     (case lastUsed st uid of None \<Rightarrow> False | Some t \<Rightarrow> now - t < COOLDOWN)"

definition setCooldown :: "bstate \<Rightarrow> int \<Rightarrow> snowflake \<Rightarrow> bstate" where
  "setCooldown st now uid = st\<lparr>lastUsed := (lastUsed st)(uid \<mapsto> now)\<rparr>"

definition ensureUser :: "bstate \<Rightarrow> snowflake \<Rightarrow> bstate" where
  "ensureUser st uid =
     st\<lparr>cwdPerUser :=
          (if truthy (cwdPerUser st uid) then cwdPerUser st
           else (cwdPerUser st)(uid \<mapsto> ''~/workspace'')),
        historyPerUser :=
          (case historyPerUser st uid of
             None \<Rightarrow> (historyPerUser st)(uid \<mapsto> [])
           | Some h \<Rightarrow> historyPerUser st),
        filesPerUser :=
          (case filesPerUser st uid of
             None \<Rightarrow> (filesPerUser st)(uid \<mapsto> {''README.md'', ''notes.txt''})
           | Some f \<Rightarrow> filesPerUser st)\<rparr>"

definition pushHistory :: "bstate \<Rightarrow> snowflake \<Rightarrow> string \<Rightarrow> bstate" where
  "pushHistory st uid line =
     st\<lparr>historyPerUser :=
          (historyPerUser st)(uid \<mapsto> (case historyPerUser st uid of None \<Rightarrow> [] | Some h \<Rightarrow> h) @ [line])\<rparr>"

definition escapeBackticks :: "string \<Rightarrow> string" where
  "escapeBackticks s = concat (map (\<lambda>c. if c = CHR 0x60 then [CHR 0x5C, CHR 0x60] else [c]) s)"

definition promptLineOf :: "bstate \<Rightarrow> message \<Rightarrow> string" where
  "promptLineOf st m =
     (let user = (if author_username m = [] then ''discord'' else author_username m);
          host = ''terminal'';
          pathStr = (case cwdPerUser st (author_id m) of
                       None \<Rightarrow> ''~/workspace''
                     | Some c \<Rightarrow> if c = [] then ''~/workspace'' else c)
      in user @ ''@'' @ host @ '':'' @ pathStr @ ''$ '' @ escapeBackticks (content m))"

definition notFound :: "string \<Rightarrow> string" where
  "notFound cmd = ''```text'' @ nl @ cmd @ '': command not found'' @ nl @ ''```''"

definition messageCreate ::
  "(string \<rightharpoonup> handler) \<Rightarrow> renv \<Rightarrow> int \<Rightarrow> message \<Rightarrow> bstate \<Rightarrow> bstate \<times> action list" where
  "messageCreate commands env now m st =
     (if author_bot m then (st, [])
      else if \<not> startsWith (content m) PREFIX then (st, [])
      else if (case guild_id m of
                 None \<Rightarrow> False
               | Some g \<Rightarrow> \<not> isChannelEnabled (toggleModule st) g (channel_id m))
        then (st, [])
      else if isOnCooldown st now (author_id m) then (st, [Send (TextMsg COOLDOWN_NOTICE)])
      else
        (let st1 = setCooldown st now (author_id m);
             cmdString = trim (drop (length PREFIX) (content m))
         in if cmdString = [] then (st1, [])
            else
              (let args = splitWs cmdString;
                   cmd = toLowerCase (case args of [] \<Rightarrow> [] | a # as \<Rightarrow> a);
                   rest = join '' '' (tl args);
                   st2 = pushHistory (ensureUser st1 (author_id m)) (author_id m) (content m);
                   promptLine = promptLineOf st2 m
               in case commands cmd of
                    Some fn \<Rightarrow>
                      (let hackCall = (cmd = ''sudo''
                                       \<and> startsWith (toLowerCase (trim rest)) ''hack'');
                           animate = (cmd \<noteq> ''help'' \<or> hackCall);
                           delay = (if hackCall then HACK_DELAY_MS
                                    else if cmd = ''help'' then 0 else DEFAULT_DELAY_MS)
                       in case fn \<lparr>inv_message = m, inv_args = tl args, inv_rest = rest\<rparr> st2 of
                            (Inl err, st3, acts) \<Rightarrow> (st3, Invoke cmd # acts)
                          | (Inr out, st3, acts) \<Rightarrow>
                              (st3, Invoke cmd # acts
                                    @ sendTerminalResponse env promptLine out animate delay))
                  | None \<Rightarrow> (st2, [Send (TextMsg (notFound cmd))]))))"

section \<open>Slash interactions (/help, /firewall)\<close>

record interaction =
  i_isChatInput :: bool
  i_commandName :: string
  i_guild :: "snowflake option"
  i_user :: snowflake
  i_member :: "snowflake option"
  i_subcommand :: string

text \<open>The ephemeral replies of the handler, by their role.\<close>

datatype reply = HelpEmbed | OnlyInServer | OwnProtectionOnly | NowProtected | NoLongerProtected
  | UnknownSubcommand

definition interactionCreate :: "firewall \<Rightarrow> interaction \<Rightarrow> firewall \<times> reply option" where
  "interactionCreate fw i =
     (if \<not> i_isChatInput i then (fw, None)
      else if i_commandName i = ''help'' then (fw, Some HelpEmbed)
      else if i_commandName i = ''firewall'' then
        (case i_guild i of
           None \<Rightarrow> (fw, Some OnlyInServer)
         | Some guildId \<Rightarrow>
             (let requestedUser = (case i_member i of None \<Rightarrow> i_user i | Some u \<Rightarrow> u)
              in if requestedUser \<noteq> i_user i then (fw, Some OwnProtectionOnly)
                 else
                   (let userId = i_user i
                    in if i_subcommand i = ''on''
                         then (protect fw guildId userId, Some NowProtected)
                       else if i_subcommand i = ''off''
                         then (unprotect fw guildId userId, Some NoLongerProtected)
                       else (fw, Some UnknownSubcommand))))
      else (fw, None))"

section \<open>The hack handler (commands/sudo/hack.js)\<close>

record guser =
  u_username :: string
  u_discriminator :: string

record member =
  m_id :: snowflake
  m_user :: "guser option"
  m_displayName :: string
  m_joinedAt :: "string option"
  m_manageable :: bool
  m_highestRole :: "nat option"

text \<open>
  What the handler reads from Discord and from \<^verbatim>\<open>Math.random\<close>: the outcome of
  \<^verbatim>\<open>resolveMember\<close> (cache look-ups and fetches, no writes), of
  \<^verbatim>\<open>guild.members.fetch\<close>, the guild owner, the public profile texts shown in the
  base fields, and the values drawn by the fake-data generators.
\<close>

record henv =
  resolveMember :: "string \<Rightarrow> member option"
  fetchMember :: "snowflake \<Rightarrow> member option"
  ownerId :: snowflake
  baseFields :: "member \<Rightarrow> field list"
  fakeFields :: "string \<Rightarrow> field list"
  avatarURL :: "string option"
  mutualCount :: nat

definition usage :: string where
  "usage = ''Usage: sudo hack <username|nickname|mention|id> [type]''"

definition knownTypes :: "string set" where
  "knownTypes = {''ip'', ''bank'', ''account'', ''email'', ''full'', ''profile'', ''password''}"

text \<open>The optional type (last token if known) and the target string.\<close>

definition parseTarget :: "string \<Rightarrow> string \<times> string" where
  "parseTarget arg =
     (let tokens = filter (\<lambda>t. t \<noteq> []) (split CHR '' '' arg)
      in if tokens \<noteq> [] \<and> toLowerCase (last tokens) \<in> knownTypes
         then (toLowerCase (last tokens), trim (join '' '' (butlast tokens)))
         else (''profile'', trim (join '' '' tokens)))"

text \<open>
  The member the handler goes on with: the resolved one, replaced by a fresh fetch when
  it lacks a user, an id or a join date and the fetch finds one.
\<close>

definition resolveTarget :: "henv \<Rightarrow> string \<Rightarrow> member option" where
  "resolveTarget env targetStr =
     (case resolveMember env targetStr of
        None \<Rightarrow> None
      | Some resolved \<Rightarrow>
          if m_user resolved = None \<or> m_id resolved = [] \<or> \<not> truthy (m_joinedAt resolved)
          then (case fetchMember env (m_id resolved) of
                  None \<Rightarrow> Some resolved
                | Some fetched \<Rightarrow> Some fetched)
          else Some resolved)"

definition dots :: "nat \<Rightarrow> string" where
  "dots d = replicate d CHR ''.''"

definition stages :: "string list" where
  "stages = [''Targeting user'', ''Bypassing firewall'', ''Fingerprinting host'',
             ''Extracting credentials'', ''Finalizing exploit'', ''Hacking'',
             ''Loading details'']"

definition hackProgress :: "string list" where
  "hackProgress = concat (map (\<lambda>s. map (\<lambda>d. s @ '' '' @ dots d) [1, 2, 3]) stages)"

definition isWordChar :: "char \<Rightarrow> bool" where
  "isWordChar c =
     (let n = (of_char c :: nat)
      in (48 \<le> n \<and> n \<le> 57) \<or> (65 \<le> n \<and> n \<le> 90) \<or> (97 \<le> n \<and> n \<le> 122) \<or> c = CHR ''_'')"

text \<open>
  The display name without a leading \<^verbatim>\<open>Hacking\<close> or \<^verbatim>\<open>Hacked\<close> (in any
  letter case, ending at a word boundary) and the white space and hyphens after it.
\<close>

definition stripHackPrefix :: "string \<Rightarrow> string" where
  "stripHackPrefix s =
     (let boundary = (\<lambda>r. case r of [] \<Rightarrow> True | c # cs \<Rightarrow> \<not> isWordChar c);
          strip = dropWhile (\<lambda>c. isSpace c \<or> c = CHR ''-'')
      in if startsWith (toLowerCase s) ''hacking'' \<and> boundary (drop 7 s) then strip (drop 7 s)
         else if startsWith (toLowerCase s) ''hacked'' \<and> boundary (drop 6 s) then strip (drop 6 s)
         else s)"

definition baseNameOf :: "member \<Rightarrow> string" where
  "baseNameOf t =
     (let uname = (case m_user t of None \<Rightarrow> [] | Some u \<Rightarrow> u_username u);
          rawDisplay = (if m_displayName t \<noteq> [] then m_displayName t
                        else if uname \<noteq> [] then uname else ''User'');
          cleaned = trim (stripHackPrefix rawDisplay);
          first = (case split CHR '' '' cleaned of [] \<Rightarrow> [] | w # ws \<Rightarrow> w)
      in if first \<noteq> [] then first else if uname \<noteq> [] then uname else ''User'')"

text \<open>
  The nickname animation, one rename for each progress phrase and a last one to
  \<^verbatim>\<open>Hacked\<close>, and the notice sent to the target.  The source starts both in the
  background; they are recorded here in the order in which they are started.
\<close>

fun nickAnimation :: "snowflake \<Rightarrow> string \<Rightarrow> nat \<Rightarrow> nat \<Rightarrow> action list" where
  "nickAnimation t baseName i 0 = [SetNickname t ''Hacked'']"
| "nickAnimation t baseName i (Suc n) =
     [SetNickname t (''Hacking '' @ baseName @ '' '' @ dots (i mod 3 + 1)), Sleep HACK_DELAY_MS]
     @ nickAnimation t baseName (i + 1) n"

definition dmText :: "message \<Rightarrow> string \<Rightarrow> string" where
  "dmText m type =
     [CHR 0xE2, CHR 0x9A, CHR 0xA0, CHR 0xEF, CHR 0xB8, CHR 0x8F]
     @ '' Notice: You have been targeted by a playful '' @ [CHR 0x27] @ ''hack'' @ [CHR 0x27]
     @ '' simulation executed by '' @ author_tag m @ '' in server '' @ [CHR 0x22]
     @ (if guild_name m = [] then ''unknown'' else guild_name m) @ [CHR 0x22]
     @ ''. This is a simulated / fun action performed by a bot. Type: ''
     @ map (\<lambda>c. if (97::nat) \<le> of_char c \<and> of_char c \<le> (122::nat)
                 then char_of (of_char c - (32::nat)) else c) type
     @ ''. If this was unwanted, contact the server admins.''"

definition blocked :: "string list \<Rightarrow> string \<Rightarrow> handler_output" where
  "blocked phrases err = OHack \<lparr>h_progress = phrases, h_result = None, h_error = Some err\<rparr>"

text \<open>
  The handler, up to and including the result it returns.  Every look-up of the source
  is guarded (\<^verbatim>\<open>.catch(() => null)\<close>, \<^verbatim>\<open>try\<close>).  A target without a
  user makes the reading of its user name throw: inside the two checks this skips the
  blocked result; later, after the renames and the notice have been started, it ends in
  the handler's outer \<^verbatim>\<open>catch\<close>, which returns the internal-error result.
\<close>

definition hackHandler ::
  "henv \<Rightarrow> firewall \<Rightarrow> message \<Rightarrow> string \<Rightarrow> handler_output \<times> action list" where
  "hackHandler env fw m arg =
     (if arg = [] then (OVal (JStr usage), [])
      else case guild_id m of
        None \<Rightarrow> (OVal (JStr ''This command only works in a server''), [])
      | Some g \<Rightarrow>
          (let (type, targetStr) = parseTarget arg
           in if targetStr = [] then (OVal (JStr usage), [])
              else case resolveTarget env targetStr of
                None \<Rightarrow> (OVal (JStr (''Cannot hack unknown target: '' @ targetStr)), [])
              | Some t \<Rightarrow>
                  if m_id t = [] then
                    (OVal (JStr (''Cannot resolve target as server member: '' @ targetStr)), [])
                  else if m_id t = author_id m then
                    (OVal (JStr ''You cannot hack yourself. Nice try.''), [])
                  else if isProtected fw g (m_id t) \<and> m_user t \<noteq> None then
                    (blocked [''Targeting user .'', ''Targeting user ..'', ''Targeting user ...'',
                              ''Checking firewall .'', ''Checking firewall ..'',
                              ''Checking firewall ...'']
                       (''Firewall active: ''
                        @ (case m_user t of None \<Rightarrow> [] | Some u \<Rightarrow> u_username u)
                        @ '' is protected in this server. Hacking blocked.''), [])
                  else if (case (fetchMember env (author_id m)) of
                             None \<Rightarrow> False
                           | Some requester \<Rightarrow>
                               (case (m_highestRole t, m_highestRole requester) of
                                  (Some tp, Some rp) \<Rightarrow>
                                    tp \<ge> rp \<and> ownerId env \<noteq> m_id requester \<and> m_user t \<noteq> None
                                | _ \<Rightarrow> False))
                    then
                    (blocked [''Targeting user .'', ''Targeting user ..'', ''Targeting user ...'',
                              ''Examining privileges .'', ''Examining privileges ..'',
                              ''Examining privileges ...'']
                       (''Permission error: ''
                        @ (case m_user t of None \<Rightarrow> [] | Some u \<Rightarrow> u_username u)
                        @ '' is higher or equal in role hierarchy. Action denied.''), [])
                  else
                    (let canManage = m_manageable t;
                         started =
                           (if canManage
                            then nickAnimation (m_id t) (baseNameOf t) 0 (length hackProgress)
                            else [])
                           @ [SendDM (m_id t) (dmText m type)]
                     in case m_user t of
                          None \<Rightarrow>
                            (blocked [''Targeting user ..'', ''Analyzing ..'', ''Finalizing ..'']
                               ''Internal error while performing hack simulation. See bot logs.'',
                             started)
                        | Some u \<Rightarrow>
                            (OHack \<lparr>h_progress = hackProgress,
                                    h_result = Some
                                      \<lparr>hr_avatar = avatarURL env,
                                       hr_typedFields = baseFields env t @ fakeFields env type,
                                       hr_renamed = canManage,
                                       hr_mutualServersCached = Some (mutualCount env),
                                       hr_activity = None,
                                       hr_targetMemberId = Some (m_id t),
                                       hr_guildId = Some g,
                                       hr_name = None, hr_tag = None, hr_id = None,
                                       hr_createdAt = None, hr_joinedAt = None\<rparr>,
                                    h_error = None\<rparr>,
                             started))))"

section \<open>File system\<close>

text \<open>
  The storage API works on the file system through \<^verbatim>\<open>node:fs\<close> and
  \<^verbatim>\<open>node:path\<close>.  The file system is a tree: a regular file with its bytes, a
  directory with its entries by name, or something else (a link, a socket).  A path is
  absolute and normalised: the list of its segments below the root.
\<close>

type_synonym byte = "8 word"
type_synonym path = "string list"

datatype node = File "byte list" | Dir "(string \<times> node) list" | Other

datatype fs_error = ENOENT | ENOTDIR | EISDIR | EEXIST | ENAMETOOLONG

text \<open>
  \<^verbatim>\<open>path.join(p, s)\<close> for an absolute \<open>p\<close>: the segments of \<open>s\<close> are
  applied in turn, an empty one and \<open>.\<close> changing nothing and \<open>..\<close> going to the
  parent (the root being its own parent).  \<open>pathAppend\<close> is string concatenation to a
  path, which lengthens its last segment.
\<close>

definition joinSeg :: "path \<Rightarrow> string \<Rightarrow> path" where
  "joinSeg p seg =
     (if seg = [] \<or> seg = ''.'' then p
      else if seg = ''..'' then butlast p
      else p @ [seg])"

definition pathJoin :: "path \<Rightarrow> string \<Rightarrow> path" where
  "pathJoin p s = foldl joinSeg p (split CHR ''/'' s)"

definition pathAppend :: "path \<Rightarrow> string \<Rightarrow> path" where
  "pathAppend p s = (if p = [] then [s] else butlast p @ [last p @ s])"

text \<open>
  The limits of the file system on names, as Linux has them: a segment of more than 255
  bytes, or a path of 4096 bytes or more, is refused with \<open>ENAMETOOLONG\<close> by every
  call.  Names are counted in UTF-8: one byte for an ASCII character and two for each
  other character of the model.
\<close>

definition utf8Length :: "string \<Rightarrow> nat" where
  "utf8Length s = sum_list (map (\<lambda>c. if (of_char c :: nat) < 128 then 1 else 2) s)"

definition tooLong :: "path \<Rightarrow> bool" where
  "tooLong p =
     (list_ex (\<lambda>seg. 255 < utf8Length seg) p
      \<or> 4096 \<le> sum_list (map (\<lambda>seg. utf8Length seg + 1) p))"

text \<open>What a path names, if anything; and the error of a path that names nothing.\<close>

fun lookup :: "node \<Rightarrow> path \<Rightarrow> node option" where
  "lookup n [] = Some n"
| "lookup (Dir es) (s # p) = (case map_of es s of None \<Rightarrow> None | Some c \<Rightarrow> lookup c p)"
| "lookup _ (s # p) = None"

fun missing :: "node \<Rightarrow> path \<Rightarrow> fs_error" where
  "missing (Dir es) (s # p) = (case map_of es s of None \<Rightarrow> ENOENT | Some c \<Rightarrow> missing c p)"
| "missing n p = ENOTDIR"

text \<open>\<^verbatim>\<open>fs.mkdir(dir, { recursive: true })\<close>\<close>

fun makeDirs :: "node \<Rightarrow> path \<Rightarrow> fs_error + node" where
  "makeDirs (Dir es) [] = Inr (Dir es)"
| "makeDirs _ [] = Inl EEXIST"
| "makeDirs (Dir es) (s # p) =
     (case makeDirs (case map_of es s of None \<Rightarrow> Dir [] | Some c \<Rightarrow> c) p of
        Inl e \<Rightarrow> Inl e
      | Inr c' \<Rightarrow> Inr (Dir (AList.update s c' es)))"
| "makeDirs _ (s # p) = Inl ENOTDIR"

definition mkdir :: "node \<Rightarrow> path \<Rightarrow> fs_error + node" where
  "mkdir fs p = (if tooLong p then Inl ENAMETOOLONG else makeDirs fs p)"

text \<open>
  \<^verbatim>\<open>fs.writeFile\<close>, and also \<^verbatim>\<open>createWriteStream\<close> with everything piped
  into it: the file is created or replaced; the parent must be a directory and the target
  must not be one; the path must be within the name limits.
\<close>

fun putFile :: "node \<Rightarrow> path \<Rightarrow> byte list \<Rightarrow> fs_error + node" where
  "putFile n [] b = Inl EISDIR"
| "putFile (Dir es) [s] b =
     (case map_of es s of
        Some (Dir ds) \<Rightarrow> Inl EISDIR
      | _ \<Rightarrow> Inr (Dir (AList.update s (File b) es)))"
| "putFile (Dir es) (s # p) b =
     (case map_of es s of
        None \<Rightarrow> Inl ENOENT
      | Some c \<Rightarrow> (case putFile c p b of
                     Inl e \<Rightarrow> Inl e
                   | Inr c' \<Rightarrow> Inr (Dir (AList.update s c' es))))"
| "putFile _ (s # p) b = Inl ENOTDIR"

definition writeFile :: "node \<Rightarrow> path \<Rightarrow> byte list \<Rightarrow> fs_error + node" where
  "writeFile fs p b = (if tooLong p then Inl ENAMETOOLONG else putFile fs p b)"

fun removeEntry :: "node \<Rightarrow> path \<Rightarrow> fs_error + node" where
  "removeEntry n [] = Inl EISDIR"
| "removeEntry (Dir es) [s] =
     (case map_of es s of
        None \<Rightarrow> Inl ENOENT
      | Some (Dir ds) \<Rightarrow> Inl EISDIR
      | Some _ \<Rightarrow> Inr (Dir (AList.delete s es)))"
| "removeEntry (Dir es) (s # p) =
     (case map_of es s of
        None \<Rightarrow> Inl ENOENT
      | Some c \<Rightarrow> (case removeEntry c p of
                     Inl e \<Rightarrow> Inl e
                   | Inr c' \<Rightarrow> Inr (Dir (AList.update s c' es))))"
| "removeEntry _ (s # p) = Inl ENOTDIR"

text \<open>\<^verbatim>\<open>fs.unlink\<close>\<close>

definition unlink :: "node \<Rightarrow> path \<Rightarrow> fs_error + node" where
  "unlink fs p = (if tooLong p then Inl ENAMETOOLONG else removeEntry fs p)"

text \<open>\<^verbatim>\<open>fs.rename\<close> of a regular file, the only use the storage API makes of it.\<close>

definition rename :: "node \<Rightarrow> path \<Rightarrow> path \<Rightarrow> fs_error + node" where
  "rename fs src dst =
     (if tooLong src \<or> tooLong dst then Inl ENAMETOOLONG
      else case lookup fs src of
        None \<Rightarrow> Inl ENOENT
      | Some (File b) \<Rightarrow>
          (if src = dst then Inr fs
           else (case writeFile fs dst b of
                   Inl e \<Rightarrow> Inl e
                 | Inr fs' \<Rightarrow> unlink fs' src))
      | Some _ \<Rightarrow> Inl EISDIR)"

text \<open>\<^verbatim>\<open>fs.unlink(p).catch(() => {})\<close>\<close>

definition unlinkQuiet :: "node \<Rightarrow> path \<Rightarrow> node" where
  "unlinkQuiet fs p = (case unlink fs p of Inl e \<Rightarrow> fs | Inr fs' \<Rightarrow> fs')"

text \<open>
  \<^verbatim>\<open>_dirSize\<close> on the entries that \<^verbatim>\<open>readdir\<close> returns: the size of each
  regular file, the size of each directory recursively, nothing for other entries.
\<close>

fun dirSize :: "(string \<times> node) list \<Rightarrow> nat" where
  "dirSize [] = 0"
| "dirSize ((name, File b) # es) = length b + dirSize es"
| "dirSize ((name, Dir ds) # es) = dirSize ds + dirSize es"
| "dirSize ((name, Other) # es) = dirSize es"

section \<open>Storage API (storage/api.js)\<close>

record api =
  baseDir :: path
  quotaBytes :: nat

text \<open>
  \<open>QuotaExceeded allowed\<close> is the error whose message starts with
  \<^verbatim>\<open>QuotaExceeded:\<close>; it carries the number of bytes still allowed.
\<close>

datatype storage_error = QuotaExceeded nat | FsError fs_error | StreamError

record saved =
  s_path :: path
  s_name :: string
  s_size :: nat

text \<open>
  The calls made on the file system, in order, and a readable stream: the chunks it
  delivers, and whether it then ends or emits an error.
\<close>

datatype fs_op = MkdirOp path | WriteOp path "byte list" | UnlinkOp path | RenameOp path path

datatype stream = Stream (chunks: "byte list list") (fails: bool)

definition DEFAULT_QUOTA :: nat where
  "DEFAULT_QUOTA = 800 * 1024 * 1024"

definition userDir :: "api \<Rightarrow> string \<Rightarrow> path" where
  "userDir cfg userId = pathJoin (baseDir cfg) userId"

definition ensureUserDir :: "api \<Rightarrow> node \<Rightarrow> string \<Rightarrow> fs_error + (path \<times> node)" where
  "ensureUserDir cfg fs userId =
     (let dir = userDir cfg userId
      in case mkdir fs dir of Inl e \<Rightarrow> Inl e | Inr fs' \<Rightarrow> Inr (dir, fs'))"

definition usedBytes :: "api \<Rightarrow> node \<Rightarrow> string \<Rightarrow> fs_error + nat" where
  "usedBytes cfg fs userId =
     (if tooLong (userDir cfg userId) then Inl ENAMETOOLONG
      else case lookup fs (userDir cfg userId) of
        None \<Rightarrow>
          (case missing fs (userDir cfg userId) of ENOENT \<Rightarrow> Inr 0 | e \<Rightarrow> Inl e)
      | Some (Dir es) \<Rightarrow> Inr (dirSize es)
      | Some _ \<Rightarrow> Inl ENOTDIR)"

text \<open>
  \<open>safeFilename\<close>: each of the characters \<open>< > : " / \<close> backslash \<open>| ? *\<close> and each
  control character up to 0x1F is replaced by an underscore; then the first 200
  characters are kept.
\<close>

definition forbidden :: "char \<Rightarrow> bool" where
  "forbidden c =
     (c \<in> {CHR ''<'', CHR ''>'', CHR '':'', CHR 0x22, CHR ''/'', CHR 0x5C, CHR ''|'',
            CHR ''?'', CHR ''*''}
      \<or> (of_char c :: nat) \<le> 0x1F)"

definition safeFilename :: "string \<Rightarrow> string" where
  "safeFilename name = take 200 (map (\<lambda>c. if forbidden c then CHR ''_'' else c) name)"

text \<open>\<^verbatim>\<open>filename || `file-${Date.now()}`\<close>\<close>

definition defaultName :: "string \<Rightarrow> nat \<Rightarrow> string" where
  "defaultName filename now = (if filename = [] then ''file-'' @ showNat now else filename)"

definition saveFileFromBuffer ::
  "api \<Rightarrow> node \<Rightarrow> nat \<Rightarrow> string \<Rightarrow> string \<Rightarrow> byte list
     \<Rightarrow> (storage_error + saved) \<times> node \<times> fs_op list" where
  "saveFileFromBuffer cfg fs now userId filename buf =
     (let safe = safeFilename (defaultName filename now)
      in case ensureUserDir cfg fs userId of
           Inl e \<Rightarrow> (Inl (FsError e), fs, [MkdirOp (userDir cfg userId)])
         | Inr (dir, fs1) \<Rightarrow>
             (let dest = pathJoin dir safe
              in case usedBytes cfg fs1 userId of
                   Inl e \<Rightarrow> (Inl (FsError e), fs1, [MkdirOp dir])
                 | Inr currentUsed \<Rightarrow>
                     (let newSize = length buf
                      in if currentUsed + newSize > quotaBytes cfg
                         then (Inl (QuotaExceeded (quotaBytes cfg - currentUsed)), fs1,
                               [MkdirOp dir])
                         else (case writeFile fs1 dest buf of
                                 Inl e \<Rightarrow>
                                   (Inl (FsError e), fs1, [MkdirOp dir, WriteOp dest buf])
                               | Inr fs2 \<Rightarrow>
                                   (Inr \<lparr>s_path = dest, s_name = safe, s_size = newSize\<rparr>, fs2,
                                    [MkdirOp dir, WriteOp dest buf])))))"

text \<open>
  The temporary file of \<open>saveFileFromStream\<close>; \<open>rnd\<close> is the twelve
  hexadecimal digits of \<^verbatim>\<open>crypto.randomBytes(6)\<close>.
\<close>

definition tmpPath :: "api \<Rightarrow> string \<Rightarrow> string \<Rightarrow> nat \<Rightarrow> string \<Rightarrow> path" where
  "tmpPath cfg userId filename now rnd =
     pathAppend (pathJoin (userDir cfg userId) (safeFilename (defaultName filename now)))
       (''.tmp-'' @ rnd)"

definition saveFileFromStream ::
  "api \<Rightarrow> node \<Rightarrow> nat \<Rightarrow> string \<Rightarrow> string \<Rightarrow> string \<Rightarrow> stream
     \<Rightarrow> (storage_error + saved) \<times> node \<times> fs_op list" where
  "saveFileFromStream cfg fs now rnd userId filename stream =
     (let safe = safeFilename (defaultName filename now)
      in case ensureUserDir cfg fs userId of
           Inl e \<Rightarrow> (Inl (FsError e), fs, [MkdirOp (userDir cfg userId)])
         | Inr (dir, fs1) \<Rightarrow>
             (let dest = pathJoin dir safe;
                  tmp = pathAppend dest (''.tmp-'' @ rnd);
                  data = concat (chunks stream);
                  written = sum_list (map length (chunks stream))
              in case writeFile fs1 tmp data of
                   Inl e \<Rightarrow>
                     (Inl (FsError e), unlinkQuiet fs1 tmp,
                      [MkdirOp dir, WriteOp tmp data, UnlinkOp tmp])
                 | Inr fs2 \<Rightarrow>
                     if fails stream
                     then (Inl StreamError, unlinkQuiet fs2 tmp,
                           [MkdirOp dir, WriteOp tmp data, UnlinkOp tmp])
                     else (case usedBytes cfg fs2 userId of
                             Inl e \<Rightarrow>
                               (Inl (FsError e), unlinkQuiet fs2 tmp,
                                [MkdirOp dir, WriteOp tmp data, UnlinkOp tmp])
                           | Inr currentUsed \<Rightarrow>
                               if currentUsed + written > quotaBytes cfg
                               then (Inl (QuotaExceeded (quotaBytes cfg - currentUsed)),
                                     unlinkQuiet fs2 tmp,
                                     [MkdirOp dir, WriteOp tmp data, UnlinkOp tmp])
                               else (case rename fs2 tmp dest of
                                       Inl e \<Rightarrow>
                                         (Inl (FsError e), unlinkQuiet fs2 tmp,
                                          [MkdirOp dir, WriteOp tmp data, RenameOp tmp dest,
                                           UnlinkOp tmp])
                                     | Inr fs3 \<Rightarrow>
                                         (Inr \<lparr>s_path = dest, s_name = safe, s_size = written\<rparr>,
                                          fs3,
                                          [MkdirOp dir, WriteOp tmp data,
                                           RenameOp tmp dest])))))"

section \<open>Command-line utilities (deploy-commands.js, remove-commands.js)\<close>

record procenv =
  BOT_TOKEN :: "string option"
  CLIENT_ID :: "string option"
  GUILD_ID :: "string option"

text \<open>
  A registered application command, as far as the scripts look at it.  A REST call either
  rejects (\<open>Inl\<close>, with the error text) or resolves (\<open>Inr\<close>).
\<close>

record appcmd =
  c_id :: string
  c_name :: string

datatype route = GuildCommands string string | GlobalCommands string

text \<open>
  \<^verbatim>\<open>pushBuilder\<close>: a builder that was found contributes its JSON under its name, a
  later one of the same name replacing an earlier one; a JSON without a name is skipped.
\<close>

definition pushBuilder :: "string option \<Rightarrow> string list \<Rightarrow> string list" where
  "pushBuilder b names =
     (case b of
        None \<Rightarrow> names
      | Some n \<Rightarrow> if n = [] \<or> n \<in> set names then names else names @ [n])"

definition deployCommands ::
  "procenv \<Rightarrow> string option \<Rightarrow> string option \<Rightarrow> string option
     \<Rightarrow> (string + string option) \<Rightarrow> (route \<Rightarrow> string list \<Rightarrow> string + nat) \<Rightarrow> nat" where
  "deployCommands env help toggleB firewallB appInfo put =
     (if \<not> truthy (BOT_TOKEN env) then 1
      else
        (let helpBuilder = (case help of None \<Rightarrow> Some ''help'' | Some h \<Rightarrow> Some h);
             toRegister = pushBuilder firewallB (pushBuilder toggleB (pushBuilder helpBuilder []))
         in if toRegister = [] then 1
            else case appInfo of
                   Inl err \<Rightarrow> 1
                 | Inr None \<Rightarrow> 1
                 | Inr (Some appId) \<Rightarrow>
                     if appId = [] then 1
                     else (case put (case GUILD_ID env of
                                       None \<Rightarrow> GlobalCommands appId
                                     | Some g \<Rightarrow> if g = [] then GlobalCommands appId
                                                else GuildCommands appId g) toRegister of
                             Inl err \<Rightarrow> 1
                           | Inr n \<Rightarrow> 0)))"

text \<open>
  The deletion loop of remove-commands.js stops at the first rejected call; \<open>True\<close>
  means every call resolved.
\<close>

fun deleteAll :: "(string \<Rightarrow> bool) \<Rightarrow> appcmd list \<Rightarrow> bool" where
  "deleteAll del [] = True"
| "deleteAll del (c # cs) = (if del (c_id c) then deleteAll del cs else False)"

datatype removal = NoCommands | NoToggle | Removed | FailedToRemove | MissingCredentials

text \<open>
  remove-commands.js calls \<^verbatim>\<open>process.exit(1)\<close> only for missing credentials.  On
  every other path the asynchronous function returns, or its \<^verbatim>\<open>catch\<close> block logs
  the error and returns, and the process ends with exit code 0.
\<close>

definition removeCommands ::
  "procenv \<Rightarrow> (string + appcmd list) \<Rightarrow> (string \<Rightarrow> bool) \<Rightarrow> nat \<times> removal" where
  "removeCommands env getCommands del =
     (if \<not> truthy (BOT_TOKEN env) \<or> \<not> truthy (CLIENT_ID env) then (1, MissingCredentials)
      else case getCommands of
             Inl err \<Rightarrow> (0, FailedToRemove)
           | Inr commands \<Rightarrow>
               if commands = [] then (0, NoCommands)
               else
                 (let toggleCommands = filter (\<lambda>c. c_name c = ''toggle'') commands
                  in if toggleCommands = [] then (0, NoToggle)
                     else if deleteAll del toggleCommands then (0, Removed)
                     else (0, FailedToRemove)))"

section \<open>Observations used in the statements\<close>

text \<open>
  What a message shows after a list of actions.  \<open>shownAfter env m k n cur as\<close> runs
  the actions \<open>as\<close>, the first of them at position \<open>k\<close> of the render, when
  \<open>n\<close> messages have reached the channel and message \<open>m\<close> shows \<open>cur\<close>: a
  send that succeeds creates the next message, an edit that succeeds replaces what its
  message shows, and a call that fails changes nothing.
\<close>

fun shownAfter ::
  "renv \<Rightarrow> nat \<Rightarrow> nat \<Rightarrow> nat \<Rightarrow> payload option \<Rightarrow> action list \<Rightarrow> payload option" where
  "shownAfter env m k n cur [] = cur"
| "shownAfter env m k n cur (Send p # as) =
     (if succeeds env k
      then shownAfter env m (k + 1) (n + 1) (if n = m then Some p else cur) as
      else shownAfter env m (k + 1) n cur as)"
| "shownAfter env m k n cur (Edit j e # as) =
     shownAfter env m (k + 1) n (if succeeds env k \<and> j = m then Some (EmbedMsg e) else cur) as"
| "shownAfter env m k n cur (a # as) = shownAfter env m (k + 1) n cur as"

definition displayed :: "renv \<Rightarrow> nat \<Rightarrow> action list \<Rightarrow> payload option" where
  "displayed env m as = shownAfter env m 0 0 None as"

fun isEdit :: "action \<Rightarrow> bool" where
  "isEdit (Edit m e) = True"
| "isEdit _ = False"

fun isRename :: "action \<Rightarrow> bool" where
  "isRename (FetchMember g t) = True"
| "isRename (SetNickname t n) = True"
| "isRename _ = False"

fun isFailure :: "action \<Rightarrow> bool" where
  "isFailure (Send (EmbedMsg e)) = (e_title e = Some ''Hack failed'')"
| "isFailure _ = False"


definition isQuotaExceeded :: "storage_error + saved \<Rightarrow> bool" where
  "isQuotaExceeded r = (case r of Inl (QuotaExceeded allowed) \<Rightarrow> True | _ \<Rightarrow> False)"

fun isWrite :: "fs_op \<Rightarrow> bool" where
  "isWrite (WriteOp p b) = True"
| "isWrite (RenameOp p q) = True"
| "isWrite _ = False"

definition nodeSize :: "node \<Rightarrow> nat" where
  "nodeSize n = (case n of File b \<Rightarrow> length b | Dir ds \<Rightarrow> dirSize ds | Other \<Rightarrow> 0)"

fun isDir :: "node \<Rightarrow> bool" where
  "isDir (Dir es) = True"
| "isDir _ = False"


definition MB :: nat where
  "MB = 1024 * 1024"



text \<open>\<open>p\<close> names an entry directly inside the directory \<open>dir\<close>.\<close>

definition directlyInside :: "path \<Rightarrow> path \<Rightarrow> bool" where
  "directlyInside dir p = (p \<noteq> [] \<and> butlast p = dir)"

section \<open>Properties of the policy stores\<close>

lemma isProtected_protect:
  "isProtected (protect m g u) g' u' =
     (isProtected m g' u' \<or> (g' = g \<and> u' = u \<and> \<not> falsy g \<and> \<not> falsy u))"
  by (auto simp: isProtected_def protect_def ensure_def Let_def split: option.splits if_splits)

lemma isProtected_unprotect:
  "isProtected (unprotect m g u) g' u' =
     (isProtected m g' u' \<and> \<not> (g' = g \<and> u' = u))"
  by (auto simp: isProtected_def unprotect_def ensure_def Let_def
        split: option.splits if_splits)

text \<open>
  C1.  For every guild and channel identifier, \<open>isChannelEnabled\<close> returns exactly
  what the channel-policy invariant prescribes: false if the channel id is in the guild's
  disabled set, whatever the whitelist holds; otherwise, if the guild's whitelist is
  non-empty, true exactly when the channel id is in the whitelist; otherwise true.  An
  identifier is a non-empty string; where one is missing, the function returns true
  without consulting the stores.
\<close>

theorem C1_isChannelEnabled_policy:
  "(guildId \<noteq> [] \<and> channelId \<noteq> [] \<longrightarrow>
      isChannelEnabled t guildId channelId
        = channelPolicy (disabledOf t guildId) (whitelistOf t guildId) channelId)
   \<and> (guildId = [] \<or> channelId = [] \<longrightarrow> isChannelEnabled t guildId channelId)"
  by (auto simp: isChannelEnabled_def channelPolicy_def disabledOf_def whitelistOf_def
        falsy_def split: option.splits)

theorem C1_isChannelEnabled_policy_witness:
  "isChannelEnabled \<lparr>disabledChannels = [''g1'' \<mapsto> {''c1''}], enabledChannels = Map.empty\<rparr>
      ''g1'' ''c1''
     = channelPolicy {''c1''} {} ''c1''
   \<and> isChannelEnabled \<lparr>disabledChannels = [''g1'' \<mapsto> {''c1''}], enabledChannels = Map.empty\<rparr>
      [] ''c1''"
  using C1_isChannelEnabled_policy
    [of "''g1''" "''c1''"
        "\<lparr>disabledChannels = [''g1'' \<mapsto> {''c1''}], enabledChannels = Map.empty\<rparr>"]
    C1_isChannelEnabled_policy
    [of "[]" "''c1''"
        "\<lparr>disabledChannels = [''g1'' \<mapsto> {''c1''}], enabledChannels = Map.empty\<rparr>"]
  by (simp add: disabledOf_def whitelistOf_def)

text \<open>
  C6.  Self-protection toggling is idempotent: for every guild and user (their
  identifiers being non-empty strings), calling \<open>protect\<close> twice in a row leaves
  the user protected; and calling \<open>unprotect\<close> when the user is not protected
  leaves the user unprotected.  Neither operation has a failing branch.
\<close>

theorem C6_protect_idempotent:
  "(guildId \<noteq> [] \<and> userId \<noteq> [] \<longrightarrow>
      isProtected (protect (protect m guildId userId) guildId userId) guildId userId)
   \<and> (\<not> isProtected m guildId userId \<longrightarrow>
      \<not> isProtected (unprotect m guildId userId) guildId userId)"
  by (simp add: isProtected_protect isProtected_unprotect falsy_def)

theorem C6_protect_idempotent_witness:
  "isProtected (protect (protect Map.empty ''g1'' ''u1'') ''g1'' ''u1'') ''g1'' ''u1''
   \<and> \<not> isProtected (unprotect Map.empty ''g1'' ''u1'') ''g1'' ''u1''"
  using C6_protect_idempotent [of "''g1''" "''u1''" Map.empty]
  by (simp add: isProtected_def falsy_def)

section \<open>Properties of the dispatcher\<close>

lemma messageCreate_on_cooldown:
  "isOnCooldown st now (author_id m) \<Longrightarrow>
     messageCreate commands env now m st = (st, [])
     \<or> messageCreate commands env now m st = (st, [Send (TextMsg COOLDOWN_NOTICE)])"
  by (simp add: messageCreate_def)








text \<open>
  C9.  For every inbound message from a user who is on cooldown, the dispatcher leaves the
  stores unchanged: the user's last-invocation timestamp is not refreshed, and the command
  history, the working directory and the file set are not touched.
\<close>

theorem C9_cooldown_frame:
  assumes "isOnCooldown st now (author_id m)"
  shows "fst (messageCreate commands env now m st) = st
       \<and> lastUsed (fst (messageCreate commands env now m st)) = lastUsed st
       \<and> historyPerUser (fst (messageCreate commands env now m st)) = historyPerUser st
       \<and> cwdPerUser (fst (messageCreate commands env now m st)) = cwdPerUser st
       \<and> filesPerUser (fst (messageCreate commands env now m st)) = filesPerUser st"
  using messageCreate_on_cooldown [OF assms, of commands env] by auto

theorem C9_cooldown_frame_witness:
  "lastUsed (fst (messageCreate Map.empty \<lparr>succeeds = (\<lambda>k. True), hasGuild = True\<rparr> 1599
      \<lparr>author_id = ''u1'', author_bot = False, author_username = ''alice'',
       author_tag = ''alice#0001'', content = ''$ls'', guild_id = Some ''g1'',
       guild_name = ''home'', channel_id = ''c1''\<rparr>
      \<lparr>lastUsed = [''u1'' \<mapsto> 1000], cwdPerUser = Map.empty, historyPerUser = Map.empty,
       filesPerUser = Map.empty, sudoState = Map.empty,
       toggleModule = \<lparr>disabledChannels = Map.empty, enabledChannels = Map.empty\<rparr>,
       firewallMap = Map.empty\<rparr>)) ''u1''
     = Some 1000"
  using C9_cooldown_frame
    [of "\<lparr>lastUsed = [''u1'' \<mapsto> 1000], cwdPerUser = Map.empty, historyPerUser = Map.empty,
          filesPerUser = Map.empty, sudoState = Map.empty,
          toggleModule = \<lparr>disabledChannels = Map.empty, enabledChannels = Map.empty\<rparr>,
          firewallMap = Map.empty\<rparr>"
        1599
        "\<lparr>author_id = ''u1'', author_bot = False, author_username = ''alice'',
          author_tag = ''alice#0001'', content = ''$ls'', guild_id = Some ''g1'',
          guild_name = ''home'', channel_id = ''c1''\<rparr>"
        Map.empty "\<lparr>succeeds = (\<lambda>k. True), hasGuild = True\<rparr>"]
  by (simp add: isOnCooldown_def COOLDOWN_def)

section \<open>Self-only rules\<close>

lemma interactionCreate_other_user:
  "v \<noteq> i_user i \<Longrightarrow>
     isProtected (fst (interactionCreate fw i)) g v = isProtected fw g v"
  by (auto simp: interactionCreate_def Let_def isProtected_protect isProtected_unprotect
        split: option.splits)

lemma interactionCreate_names_other:
  "i_isChatInput i \<Longrightarrow> i_commandName i = ''firewall'' \<Longrightarrow> i_guild i = Some gi
     \<Longrightarrow> i_member i = Some w \<Longrightarrow> w \<noteq> i_user i
     \<Longrightarrow> interactionCreate fw i = (fw, Some OwnProtectionOnly)"
  by (simp add: interactionCreate_def)

lemma hackHandler_self:
  "arg \<noteq> [] \<Longrightarrow> guild_id m = Some gm \<Longrightarrow> snd (parseTarget arg) \<noteq> []
     \<Longrightarrow> resolveTarget env (snd (parseTarget arg)) = Some t \<Longrightarrow> m_id t = author_id m
     \<Longrightarrow> hackHandler env fw m arg
         = (OVal (JStr (if author_id m = []
                        then ''Cannot resolve target as server member: '' @ snd (parseTarget arg)
                        else ''You cannot hack yourself. Nice try.'')), [])"
proof -
  assume a: "arg \<noteq> []" "guild_id m = Some gm" "snd (parseTarget arg) \<noteq> []"
    "resolveTarget env (snd (parseTarget arg)) = Some t" "m_id t = author_id m"
  obtain type targetStr where p: "parseTarget arg = (type, targetStr)"
    by (cases "parseTarget arg")
  with a show ?thesis by (simp add: hackHandler_def)
qed

text \<open>
  C4.  For every pair of distinct users, a firewall slash-command invocation by one user
  never changes the other user's protection state, a request naming another member being
  rejected before the store is touched; and a sudo-hack invocation whose resolved target
  is the invoking author is rejected with a refusal message and performs no side effects
  (no nickname change, no direct message; the handler cannot write the protection store).
\<close>

theorem C4_self_only:
  "(v \<noteq> i_user i \<longrightarrow>
      isProtected (fst (interactionCreate fw i)) g v = isProtected fw g v)
   \<and> (i_isChatInput i \<and> i_commandName i = ''firewall'' \<and> i_guild i = Some gi
        \<and> i_member i = Some w \<and> w \<noteq> i_user i \<longrightarrow>
      interactionCreate fw i = (fw, Some OwnProtectionOnly))
   \<and> (arg \<noteq> [] \<and> guild_id m = Some gm \<and> snd (parseTarget arg) \<noteq> []
        \<and> resolveTarget env (snd (parseTarget arg)) = Some t \<and> m_id t = author_id m \<longrightarrow>
      hackHandler env fw m arg
        = (OVal (JStr (if author_id m = []
                       then ''Cannot resolve target as server member: '' @ snd (parseTarget arg)
                       else ''You cannot hack yourself. Nice try.'')), []))"
  using interactionCreate_other_user [of v i fw g]
    interactionCreate_names_other [of i gi w fw]
    hackHandler_self [of arg m gm env t fw]
  by blast

theorem C4_self_only_witness:
  "isProtected
     (fst (interactionCreate [''g1'' \<mapsto> {''u2''}]
        \<lparr>i_isChatInput = True, i_commandName = ''firewall'', i_guild = Some ''g1'',
         i_user = ''u1'', i_member = None, i_subcommand = ''off''\<rparr>)) ''g1'' ''u2''
   \<and> snd (interactionCreate [''g1'' \<mapsto> {''u2''}]
        \<lparr>i_isChatInput = True, i_commandName = ''firewall'', i_guild = Some ''g1'',
         i_user = ''u1'', i_member = Some ''u2'', i_subcommand = ''off''\<rparr>)
       = Some OwnProtectionOnly
   \<and> hackHandler
        \<lparr>resolveMember = (\<lambda>s. Some \<lparr>m_id = ''u1'', m_user = Some \<lparr>u_username = ''alice'',
             u_discriminator = ''0001''\<rparr>, m_displayName = ''alice'',
             m_joinedAt = Some ''2024-01-01'', m_manageable = True, m_highestRole = Some 1\<rparr>),
         fetchMember = (\<lambda>s. None), ownerId = ''u9'', baseFields = (\<lambda>t. []),
         fakeFields = (\<lambda>t. []), avatarURL = None, mutualCount = 1\<rparr>
        Map.empty
        \<lparr>author_id = ''u1'', author_bot = False, author_username = ''alice'',
         author_tag = ''alice#0001'', content = ''$sudo hack alice'', guild_id = Some ''g1'',
         guild_name = ''home'', channel_id = ''c1''\<rparr>
        ''alice''
       = (OVal (JStr ''You cannot hack yourself. Nice try.''), [])"
  using C4_self_only
    [where v = "''u2''" and g = "''g1''" and fw = "[''g1'' \<mapsto> {''u2''}]"
       and i = "\<lparr>i_isChatInput = True, i_commandName = ''firewall'', i_guild = Some ''g1'',
          i_user = ''u1'', i_member = None, i_subcommand = ''off''\<rparr>"]
    C4_self_only
    [where gi = "''g1''" and w = "''u2''" and fw = "[''g1'' \<mapsto> {''u2''}]"
       and i = "\<lparr>i_isChatInput = True, i_commandName = ''firewall'', i_guild = Some ''g1'',
          i_user = ''u1'', i_member = Some ''u2'', i_subcommand = ''off''\<rparr>"]
    C4_self_only
    [where arg = "''alice''" and gm = "''g1''" and fw = Map.empty
       and m = "\<lparr>author_id = ''u1'', author_bot = False, author_username = ''alice'',
          author_tag = ''alice#0001'', content = ''$sudo hack alice'', guild_id = Some ''g1'',
          guild_name = ''home'', channel_id = ''c1''\<rparr>"
       and env = "\<lparr>resolveMember = (\<lambda>s. Some \<lparr>m_id = ''u1'', m_user = Some \<lparr>u_username = ''alice'',
             u_discriminator = ''0001''\<rparr>, m_displayName = ''alice'',
             m_joinedAt = Some ''2024-01-01'', m_manageable = True, m_highestRole = Some 1\<rparr>),
          fetchMember = (\<lambda>s. None), ownerId = ''u9'', baseFields = (\<lambda>t. []),
          fakeFields = (\<lambda>t. []), avatarURL = None, mutualCount = 1\<rparr>"
       and t = "\<lparr>m_id = ''u1'', m_user = Some \<lparr>u_username = ''alice'',
             u_discriminator = ''0001''\<rparr>, m_displayName = ''alice'',
             m_joinedAt = Some ''2024-01-01'', m_manageable = True, m_highestRole = Some 1\<rparr>"]
  by (simp add: isProtected_def falsy_def parseTarget_def resolveTarget_def trim_def
        isSpace_def toLowerCase_def toLowerChar_def knownTypes_def)

section \<open>Properties of the renderer\<close>

lemma shownAfter_animateLines:
  "ls \<noteq> [] \<Longrightarrow> succeeds env (k + 2 * length ls - 1)
     \<Longrightarrow> shownAfter env m k n cur (animateLines m p d chunk ls)
         = Some (EmbedMsg (termEmbed (withBody p (join nl (chunk @ ls)))))"
proof (induction ls arbitrary: k cur chunk)
  case Nil
  then show ?case by simp
next
  case (Cons l ls)
  show ?case
  proof (cases "ls = []")
    case True
    with Cons.prems show ?thesis by simp
  next
    case False
    from Cons.prems(2) have "succeeds env (k + 2 + 2 * length ls - 1)"
      by (simp add: algebra_simps)
    from Cons.IH [OF False this] show ?thesis by simp
  qed
qed

lemma edits_progressEdits:
  "filter isEdit (progressEdits p d ls) = map (\<lambda>line. Edit 0 (termEmbed (withBody p line))) ls"
  by (induction ls) simp_all

lemma rename_progressEdits: "\<not> list_ex isRename (progressEdits p d ls)"
  by (induction ls) simp_all

lemma normalize_string_array:
  "normalize (OVal (JArr (map JStr ss))) = concat (map (split CHR 0x0A) ss)"
  by (simp add: comp_def)


text \<open>
  C5 (as amended).  For every hack-shaped renderer input carrying a progress list and a
  non-empty error string, when the first message is sent successfully, the renderer edits
  that message once per progress phrase in order, then sends a distinct failure-styled
  message whose text is the error, and issues no field-typing edits and performs no
  rename action.
\<close>

theorem C5_hack_error_render:
  assumes "h_error h = Some e" and "e \<noteq> []" and "succeeds env 0"
  shows "sendTerminalResponse env promptLine (OHack h) animate delay
           = Send (EmbedMsg (termEmbed (placeholder promptLine)))
             # progressEdits promptLine delay (h_progress h)
             @ [Send (EmbedMsg (failEmbed e))]
       \<and> filter isEdit (sendTerminalResponse env promptLine (OHack h) animate delay)
           = map (\<lambda>line. Edit 0 (termEmbed (withBody promptLine line))) (h_progress h)
       \<and> e_description (failEmbed e) = Some e
       \<and> \<not> list_ex isRename (sendTerminalResponse env promptLine (OHack h) animate delay)"
  using assms
  by (simp add: sendTerminalResponse_def errorOf_def Let_def edits_progressEdits
        rename_progressEdits failEmbed_def)

theorem C5_hack_error_render_witness:
  "sendTerminalResponse \<lparr>succeeds = (\<lambda>k. True), hasGuild = True\<rparr> ''u@terminal:~$ x''
      (OHack \<lparr>h_progress = [''p1'', ''p2''], h_result = None, h_error = Some ''blocked''\<rparr>) True 120
     = [Send (EmbedMsg (termEmbed (placeholder ''u@terminal:~$ x''))),
        Edit 0 (termEmbed (withBody ''u@terminal:~$ x'' ''p1'')), Sleep 120,
        Edit 0 (termEmbed (withBody ''u@terminal:~$ x'' ''p2'')), Sleep 120,
        Send (EmbedMsg (failEmbed ''blocked''))]"
  using C5_hack_error_render
    [of "\<lparr>h_progress = [''p1'', ''p2''], h_result = None, h_error = Some ''blocked''\<rparr>" "''blocked''"
        "\<lparr>succeeds = (\<lambda>k. True), hasGuild = True\<rparr>" "''u@terminal:~$ x''" True 120]
  by simp

text \<open>
  C5 as stated fails: the empty string is an error string that is not null, and with it
  the renderer sends no failure-styled message; it goes on to print the object itself as
  plain output in a second message.
\<close>

theorem C5_counterexample:
  "\<not> list_ex isFailure
       (sendTerminalResponse \<lparr>succeeds = (\<lambda>k. True), hasGuild = True\<rparr> ''u@terminal:~$ x''
          (OHack \<lparr>h_progress = [''p1'', ''p2''], h_result = None, h_error = Some []\<rparr>) True 120)
   \<and> last (sendTerminalResponse \<lparr>succeeds = (\<lambda>k. True), hasGuild = True\<rparr> ''u@terminal:~$ x''
          (OHack \<lparr>h_progress = [''p1'', ''p2''], h_result = None, h_error = Some []\<rparr>) True 120)
       = Edit 1 (termEmbed (withBody ''u@terminal:~$ x'' ''[object Object]''))"
  by (simp add: sendTerminalResponse_def errorOf_def plainFlow_def termEmbed_def)

text \<open>
  C7 (as amended).  For every handler result that is neither a hack object nor an embed,
  the renderer normalizes it to an ordered sequence of text lines: a string is split on
  newlines; an array gives, element by element in order, the lines of a string element
  split on newlines and one empty line for any other element (a nested array is not
  flattened); null becomes a single empty line; any other value becomes the one line of
  its string coercion.  When the placeholder message is sent and the last edit of the
  render is accepted, what the message displays in the end is the prompt followed by
  these lines in order.
\<close>

theorem C7_normalize_and_display:
  assumes "succeeds env 0"
    and "succeeds env (if animate then 2 * length (normalize (OVal v)) else 1)"
  shows "normalize (OVal (JStr s)) = split CHR 0x0A s
       \<and> normalize (OVal (JArr xs))
           = concat (map (\<lambda>x. case x of JStr l \<Rightarrow> split CHR 0x0A l | _ \<Rightarrow> [[]]) xs)
       \<and> normalize (OVal (JArr (map JStr ss))) = concat (map (split CHR 0x0A) ss)
       \<and> normalize (OVal JNull) = [[]]
       \<and> normalize (OVal (JOther other)) = [other]
       \<and> displayed env 0 (sendTerminalResponse env promptLine (OVal v) animate delay)
           = Some (EmbedMsg (termEmbed
               (''```text'' @ nl @ promptLine @ nl @ nl
                @ (if normalize (OVal v) = [] \<and> animate then []
                   else join nl (normalize (OVal v)) @ nl)
                @ ''```'')))"
proof -
  have "elementLines = (\<lambda>x. case x of JStr l \<Rightarrow> split CHR 0x0A l | _ \<Rightarrow> [[]])"
    by (rule ext) (simp split: jsval.splits)
  then have arr: "normalize (OVal (JArr xs))
      = concat (map (\<lambda>x. case x of JStr l \<Rightarrow> split CHR 0x0A l | _ \<Rightarrow> [[]]) xs)"
    by simp
  have strs: "normalize (OVal (JArr (map JStr ss))) = concat (map (split CHR 0x0A) ss)"
    by (rule normalize_string_array)
  have rest: "normalize (OVal (JStr s)) = split CHR 0x0A s" "normalize (OVal JNull) = [[]]"
    "normalize (OVal (JOther other)) = [other]"
    by simp_all
  let ?lines = "normalize (OVal v)"
  have shown: "displayed env 0 (sendTerminalResponse env promptLine (OVal v) animate delay)
      = Some (EmbedMsg (termEmbed
          (''```text'' @ nl @ promptLine @ nl @ nl
           @ (if ?lines = [] \<and> animate then [] else join nl ?lines @ nl)
           @ ''```'')))"
  proof (cases animate)
    case False
    with assms show ?thesis
      by (simp add: displayed_def sendTerminalResponse_def plainFlow_def Let_def
            withBody_def)
  next
    case True
    show ?thesis
    proof (cases "?lines = []")
      case True
      with \<open>animate\<close> assms(1) show ?thesis
        by (simp add: displayed_def sendTerminalResponse_def plainFlow_def Let_def
              placeholder_def)
    next
      case False
      from True assms(2) have "succeeds env (1 + 2 * length ?lines - 1)" by simp
      from shownAfter_animateLines [OF False this]
      have "shownAfter env 0 1 1 (Some (EmbedMsg (termEmbed (placeholder promptLine))))
              (animateLines 0 promptLine delay [] ?lines)
            = Some (EmbedMsg (termEmbed (withBody promptLine (join nl ?lines))))"
        by simp
      with True False assms(1) show ?thesis
        by (simp add: displayed_def sendTerminalResponse_def plainFlow_def Let_def
              withBody_def)
    qed
  qed
  from arr strs rest shown show ?thesis by blast
qed

theorem C7_normalize_and_display_witness:
  "displayed \<lparr>succeeds = (\<lambda>k. True), hasGuild = True\<rparr> 0
     (sendTerminalResponse \<lparr>succeeds = (\<lambda>k. True), hasGuild = True\<rparr> ''u@terminal:~$ x''
        (OVal (JArr [JStr ''a'', JStr ''b''])) True 140)
     = Some (EmbedMsg (termEmbed
         (''```text'' @ nl @ ''u@terminal:~$ x'' @ nl @ nl @ ''a'' @ nl @ ''b'' @ nl @ ''```'')))"
  using C7_normalize_and_display
    [where env = "\<lparr>succeeds = (\<lambda>k. True), hasGuild = True\<rparr>"
       and promptLine = "''u@terminal:~$ x''" and v = "JArr [JStr ''a'', JStr ''b'']"
       and animate = True and delay = 140]
  by simp

text \<open>
  C7 as stated fails: an array holding the array of \<open>a\<close> and \<open>b\<close> is not
  flattened one level; it is normalized to one empty line, and with every call accepted
  the message ends up displaying the prompt and an empty line, neither \<open>a\<close> nor
  \<open>b\<close>.
\<close>

theorem C7_counterexample:
  "normalize (OVal (JArr [JArr [JStr ''a'', JStr ''b'']])) = [[]]
   \<and> displayed \<lparr>succeeds = (\<lambda>k. True), hasGuild = True\<rparr> 0
        (sendTerminalResponse \<lparr>succeeds = (\<lambda>k. True), hasGuild = True\<rparr>
           ''u@terminal:~$ x'' (OVal (JArr [JArr [JStr ''a'', JStr ''b'']])) True 140)
       = Some (EmbedMsg (termEmbed
           (''```text'' @ nl @ ''u@terminal:~$ x'' @ nl @ nl @ nl @ ''```'')))"
  by (simp add: displayed_def sendTerminalResponse_def plainFlow_def withBody_def)

section \<open>Properties of the storage API\<close>

lemma dirSize_Cons: "dirSize ((k, n) # es) = nodeSize n + dirSize es"
  by (cases n) (simp_all add: nodeSize_def)

lemma dirSize_update_fresh:
  "map_of es s = None \<Longrightarrow> dirSize (AList.update s c es) = dirSize es + nodeSize c"
proof (induction es)
  case Nil
  then show ?case by (simp add: dirSize_Cons)
next
  case (Cons e es)
  obtain k n where e: "e = (k, n)" by (cases e)
  with Cons show ?case by (auto simp: dirSize_Cons split: if_splits)
qed

lemma dirSize_update_mono:
  "map_of es s = Some c0 \<Longrightarrow> nodeSize c0 \<le> nodeSize c
     \<Longrightarrow> dirSize es \<le> dirSize (AList.update s c es)"
proof (induction es)
  case Nil
  then show ?case by simp
next
  case (Cons e es)
  obtain k n where e: "e = (k, n)" by (cases e)
  with Cons show ?case by (auto simp: dirSize_Cons split: if_splits)
qed

lemma lookup_Dir_Nil: "lookup n [] = Some n"
  by simp

lemma lookup_append:
  "lookup n (p @ q) = (case lookup n p of None \<Rightarrow> None | Some m \<Rightarrow> lookup m q)"
proof (induction n p rule: lookup.induct)
  case (1 n)
  then show ?case by simp
next
  case (2 es s p)
  then show ?case by (simp split: option.splits)
qed simp_all

lemma lookup_child_isDir: "lookup n (s # p) = Some m \<Longrightarrow> isDir n"
  by (cases n) simp_all

lemma lookup_butlast_isDir:
  assumes "lookup fs p = Some n" and "isDir n"
  shows "\<exists>m. lookup fs (butlast p) = Some m \<and> isDir m"
proof (cases p rule: rev_cases)
  case Nil
  with assms show ?thesis by simp
next
  case (snoc q s)
  with assms(1) obtain m where m: "lookup fs q = Some m" and "lookup m [s] = Some n"
    by (auto simp: lookup_append split: option.splits)
  then have "isDir m" by (blast intro: lookup_child_isDir)
  with m snoc show ?thesis by simp
qed

lemma makeDirs_existing: "lookup fs p = Some n \<Longrightarrow> isDir n \<Longrightarrow> makeDirs fs p = Inr fs"
proof (induction fs p arbitrary: n rule: makeDirs.induct)
  case (1 es)
  then show ?case by auto
next
  case (3 es s p)
  from "3.prems" obtain c where c: "map_of es s = Some c" and l: "lookup c p = Some n"
    by (auto split: option.splits)
  from "3.IH" [of n] c l "3.prems"(2) have "makeDirs c p = Inr c" by simp
  with c show ?case by (simp add: update_triv)
qed simp_all

lemma putFile_fresh_succeeds:
  "p \<noteq> [] \<Longrightarrow> lookup fs p = None \<Longrightarrow> lookup fs (butlast p) = Some m \<Longrightarrow> isDir m
     \<Longrightarrow> \<exists>fs'. putFile fs p b = Inr fs'"
proof (induction fs p b arbitrary: m rule: putFile.induct)
  case (2 es s b)
  then show ?case by (auto split: option.splits)
next
  case (3 es s v va b)
  from "3.prems"(3) obtain c where c: "map_of es s = Some c"
    by (auto split: option.splits)
  with "3.prems" have "\<exists>fs'. putFile c (v # va) b = Inr fs'"
    by (intro "3.IH" [of c m]) (auto split: if_splits)
  with c show ?case by auto
qed (auto split: if_splits list.splits)

lemma removeEntry_putFile_fresh:
  "lookup fs p = None \<Longrightarrow> putFile fs p b = Inr fs' \<Longrightarrow> removeEntry fs' p = Inr fs"
proof (induction fs p b arbitrary: fs' rule: putFile.induct)
  case (2 es s b)
  from "2.prems"(1) have none: "map_of es s = None" by (simp split: option.splits)
  then have "s \<notin> fst ` set es" by (simp add: map_of_eq_None_iff)
  then have "AList.delete s (AList.update s (File b) es) = es"
    by (simp add: delete_update_same)
  with "2.prems" none show ?case
    by (auto simp: update_conv')
next
  case (3 es s v va b)
  from "3.prems"(2) obtain c c' where c: "map_of es s = Some c"
    and w: "putFile c (v # va) b = Inr c'" and fs': "fs' = Dir (AList.update s c' es)"
    by (auto split: option.splits sum.splits)
  from "3.prems"(1) c have "lookup c (v # va) = None" by simp
  with "3.IH" [OF c] w have u: "removeEntry c' (v # va) = Inr c" by simp
  have "AList.update s c (AList.update s c' es) = es"
    using c by (simp add: update_triv)
  with u fs' show ?case by (simp add: update_conv')
qed simp_all

lemma putFile_fresh_grows:
  "lookup fs p = None \<Longrightarrow> putFile fs p b = Inr fs' \<Longrightarrow> lookup fs q = Some n
     \<Longrightarrow> \<exists>n'. lookup fs' q = Some n' \<and> nodeSize n \<le> nodeSize n' \<and> (isDir n \<longrightarrow> isDir n')"
proof (induction fs p b arbitrary: fs' q n rule: putFile.induct)
  case (2 es s b)
  from "2.prems"(1) have none: "map_of es s = None" by (simp split: option.splits)
  with "2.prems"(2) have fs': "fs' = Dir (AList.update s (File b) es)" by simp
  show ?case
  proof (cases q)
    case Nil
    with "2.prems"(3) fs' none show ?thesis
      by (auto simp: nodeSize_def dirSize_update_fresh)
  next
    case (Cons t q')
    with "2.prems"(3) none have "t \<noteq> s" by (auto split: option.splits)
    with Cons "2.prems"(3) fs' show ?thesis by (simp add: update_conv')
  qed
next
  case (3 es s v va b)
  from "3.prems"(2) obtain c c' where c: "map_of es s = Some c"
    and w: "putFile c (v # va) b = Inr c'" and fs': "fs' = Dir (AList.update s c' es)"
    by (auto split: option.splits sum.splits)
  from "3.prems"(1) c have fresh: "lookup c (v # va) = None" by simp
  have step: "\<And>q n. lookup c q = Some n \<Longrightarrow>
      \<exists>n'. lookup c' q = Some n' \<and> nodeSize n \<le> nodeSize n' \<and> (isDir n \<longrightarrow> isDir n')"
    using "3.IH" [OF c fresh w] by blast
  show ?case
  proof (cases q)
    case Nil
    from step [of "[]" c] have "nodeSize c \<le> nodeSize c'" by simp
    with c have "dirSize es \<le> dirSize (AList.update s c' es)"
      by (rule dirSize_update_mono)
    with Nil "3.prems"(3) fs' show ?thesis by (auto simp: nodeSize_def)
  next
    case (Cons t q')
    show ?thesis
    proof (cases "t = s")
      case True
      with Cons "3.prems"(3) c have "lookup c q' = Some n" by simp
      from step [OF this] True Cons fs' show ?thesis by (simp add: update_conv')
    next
      case False
      with Cons "3.prems"(3) fs' show ?thesis by (simp add: update_conv')
    qed
  qed
qed simp_all


lemma safeFilename_no_forbidden: "c \<in> set (safeFilename s) \<Longrightarrow> \<not> forbidden c"
proof -
  have "\<not> forbidden CHR ''_''" by (simp add: forbidden_def)
  moreover assume "c \<in> set (safeFilename s)"
  then have "c \<in> set (map (\<lambda>c. if forbidden c then CHR ''_'' else c) s)"
    unfolding safeFilename_def by (rule in_set_takeD)
  ultimately show ?thesis by (auto split: if_splits)
qed

lemma safeFilename_no_slash: "CHR ''/'' \<notin> set (safeFilename s)"
  using safeFilename_no_forbidden [of "CHR ''/''" s] by (auto simp: forbidden_def)

lemma split_no_sep: "c \<notin> set s \<Longrightarrow> split c s = [s]"
  by (induction s) auto

lemma pathJoin_safe: "pathJoin d (safeFilename s) = joinSeg d (safeFilename s)"
  by (simp add: pathJoin_def split_no_sep safeFilename_no_slash)

lemma butlast_pathAppend: "butlast (pathAppend p s) = butlast p"
  by (simp add: pathAppend_def)

lemma pathAppend_nonempty: "pathAppend p s \<noteq> []"
  by (simp add: pathAppend_def)

lemma joinSeg_parent_isDir:
  assumes "lookup fs d = Some n" and "isDir n"
  shows "\<exists>m. lookup fs (butlast (joinSeg d seg)) = Some m \<and> isDir m"
proof -
  from assms have 1: "\<exists>m. lookup fs (butlast d) = Some m \<and> isDir m"
    by (rule lookup_butlast_isDir)
  then have 2: "\<exists>m. lookup fs (butlast (butlast d)) = Some m \<and> isDir m"
    by (blast intro: lookup_butlast_isDir)
  from assms 1 2 show ?thesis by (auto simp: joinSeg_def)
qed

lemma usedBytes_pos_isDir:
  "usedBytes cfg fs userId = Inr used \<Longrightarrow> 0 < used
     \<Longrightarrow> \<not> tooLong (userDir cfg userId)
         \<and> (\<exists>es. lookup fs (userDir cfg userId) = Some (Dir es) \<and> dirSize es = used)"
  by (auto simp: usedBytes_def split: if_splits option.splits node.splits fs_error.splits)

lemma saveFileFromBuffer_over_quota:
  assumes used: "usedBytes cfg fs userId = Inr used" and pos: "0 < used"
    and over: "quotaBytes cfg < used + length buf"
  shows "saveFileFromBuffer cfg fs now userId filename buf
           = (Inl (QuotaExceeded (quotaBytes cfg - used)), fs, [MkdirOp (userDir cfg userId)])"
proof -
  from used pos obtain es where short: "\<not> tooLong (userDir cfg userId)"
    and "lookup fs (userDir cfg userId) = Some (Dir es)"
    by (blast dest: usedBytes_pos_isDir)
  then have "makeDirs fs (userDir cfg userId) = Inr fs"
    by (intro makeDirs_existing [of _ _ "Dir es"]) simp_all
  with short have "mkdir fs (userDir cfg userId) = Inr fs"
    by (simp add: mkdir_def)
  with used over show ?thesis
    by (simp add: saveFileFromBuffer_def ensureUserDir_def Let_def)
qed

lemma saveFileFromStream_over_quota:
  assumes used: "usedBytes cfg fs userId = Inr used" and pos: "0 < used"
    and over: "quotaBytes cfg < used + sum_list (map length (chunks stream))"
    and ok: "\<not> fails stream"
    and fresh: "lookup fs (tmpPath cfg userId filename now rnd) = None"
    and name: "\<not> tooLong (tmpPath cfg userId filename now rnd)"
  shows "\<exists>allowed.
           saveFileFromStream cfg fs now rnd userId filename stream
             = (Inl (QuotaExceeded allowed), fs,
                [MkdirOp (userDir cfg userId),
                 WriteOp (tmpPath cfg userId filename now rnd) (concat (chunks stream)),
                 UnlinkOp (tmpPath cfg userId filename now rnd)])"
proof -
  let ?dir = "userDir cfg userId"
  let ?tmp = "tmpPath cfg userId filename now rnd"
  let ?data = "concat (chunks stream)"
  from used pos obtain es where short: "\<not> tooLong ?dir"
    and dir: "lookup fs ?dir = Some (Dir es)" and es: "dirSize es = used"
    by (blast dest: usedBytes_pos_isDir)
  then have "makeDirs fs ?dir = Inr fs"
    by (intro makeDirs_existing [of _ _ "Dir es"]) simp_all
  with short have mk: "mkdir fs ?dir = Inr fs"
    by (simp add: mkdir_def)
  from dir have "\<exists>m. lookup fs (butlast ?tmp) = Some m \<and> isDir m"
    unfolding tmpPath_def butlast_pathAppend pathJoin_safe
    by (intro joinSeg_parent_isDir [of _ _ "Dir es"]) simp_all
  with fresh obtain fs2 where p: "putFile fs ?tmp ?data = Inr fs2"
    using putFile_fresh_succeeds [of ?tmp fs _ ?data]
    by (auto simp: tmpPath_def pathAppend_nonempty)
  with name have w: "writeFile fs ?tmp ?data = Inr fs2"
    by (simp add: writeFile_def)
  from putFile_fresh_grows [OF fresh p dir]
  obtain n' where n': "lookup fs2 ?dir = Some n'" "used \<le> nodeSize n'" "isDir n'"
    by (auto simp: nodeSize_def es)
  then obtain es2 where "n' = Dir es2" by (cases n') simp_all
  with n' short have used2: "usedBytes cfg fs2 userId = Inr (dirSize es2)"
    "used \<le> dirSize es2"
    by (simp_all add: usedBytes_def nodeSize_def)
  from removeEntry_putFile_fresh [OF fresh p] name have un: "unlinkQuiet fs2 ?tmp = fs"
    by (simp add: unlinkQuiet_def unlink_def)
  from mk w used2 over ok un show ?thesis
    by (simp add: saveFileFromStream_def ensureUserDir_def Let_def tmpPath_def)
qed


lemma saveFileFromStream_name_too_long:
  assumes dir: "lookup fs (userDir cfg userId) = Some (Dir es)"
    and short: "\<not> tooLong (userDir cfg userId)"
    and long: "tooLong (tmpPath cfg userId filename now rnd)"
  shows "saveFileFromStream cfg fs now rnd userId filename stream
           = (Inl (FsError ENAMETOOLONG), fs,
              [MkdirOp (userDir cfg userId),
               WriteOp (tmpPath cfg userId filename now rnd) (concat (chunks stream)),
               UnlinkOp (tmpPath cfg userId filename now rnd)])"
proof -
  from dir have "makeDirs fs (userDir cfg userId) = Inr fs"
    by (intro makeDirs_existing [of _ _ "Dir es"]) simp_all
  with short have "mkdir fs (userDir cfg userId) = Inr fs"
    by (simp add: mkdir_def)
  with long show ?thesis
    by (simp add: saveFileFromStream_def ensureUserDir_def Let_def tmpPath_def
          writeFile_def unlink_def unlinkQuiet_def)
qed

lemma utf8Length_append: "utf8Length (s @ t) = utf8Length s + utf8Length t"
  by (simp add: utf8Length_def)

lemma utf8Length_replicate:
  "utf8Length (replicate n c) = n * (if (of_char c :: nat) < 128 then 1 else 2)"
  by (simp add: utf8Length_def sum_list_replicate)

text \<open>
  A name of 200 letters \<open>e\<close> with an acute accent (U+00E9) is kept whole by
  \<open>safeFilename\<close> and takes 400 bytes: the temporary file cannot be created, and the
  save fails with \<open>ENAMETOOLONG\<close>, whatever the quota.
\<close>

lemma saveFileFromStream_long_name:
  "saveFileFromStream \<lparr>baseDir = [''data'', ''users''], quotaBytes = 800 * MB\<rparr>
       (Dir [(''data'', Dir [(''users'',
          Dir [(''1'', Dir [(''big.bin'', File (replicate (799 * MB) 0))])])])])
       0 ''0123456789ab'' ''1'' (replicate 200 (CHR 0xE9)) (Stream [replicate (2 * MB) 0] False)
     = (Inl (FsError ENAMETOOLONG),
        Dir [(''data'', Dir [(''users'',
          Dir [(''1'', Dir [(''big.bin'', File (replicate (799 * MB) 0))])])])],
        [MkdirOp [''data'', ''users'', ''1''],
         WriteOp [''data'', ''users'', ''1'', replicate 200 (CHR 0xE9) @ ''.tmp-0123456789ab'']
           (replicate (2 * MB) 0),
         UnlinkOp [''data'', ''users'', ''1'', replicate 200 (CHR 0xE9) @ ''.tmp-0123456789ab'']])"
proof -
  have name: "safeFilename (defaultName (replicate 200 (CHR 0xE9)) 0) = replicate 200 (CHR 0xE9)"
    by (simp add: safeFilename_def defaultName_def forbidden_def)
  have "CHR ''/'' \<notin> set (replicate 200 (CHR 0xE9))" by simp
  then have sp: "split CHR ''/'' (replicate 200 (CHR 0xE9)) = [replicate 200 (CHR 0xE9)]"
    by (rule split_no_sep)
  have ne1: "replicate 200 (CHR 0xE9) \<noteq> ''.''"
  proof
    assume "replicate 200 (CHR 0xE9) = ''.''"
    then have "length (replicate 200 (CHR 0xE9)) = length ''.''" by (rule arg_cong)
    then show False by simp
  qed
  have ne2: "replicate 200 (CHR 0xE9) \<noteq> ''..''"
  proof
    assume "replicate 200 (CHR 0xE9) = ''..''"
    then have "length (replicate 200 (CHR 0xE9)) = length ''..''" by (rule arg_cong)
    then show False by simp
  qed
  have ne3: "replicate 200 (CHR 0xE9) \<noteq> []" by simp
  note ne = ne1 ne2 ne3
  have tmp: "tmpPath \<lparr>baseDir = [''data'', ''users''], quotaBytes = 800 * MB\<rparr> ''1''
               (replicate 200 (CHR 0xE9)) 0 ''0123456789ab''
             = [''data'', ''users'', ''1'', replicate 200 (CHR 0xE9) @ ''.tmp-0123456789ab'']"
    unfolding tmpPath_def name
    by (simp add: userDir_def pathJoin_def sp ne joinSeg_def pathAppend_def)
  have long: "tooLong [''data'', ''users'', ''1'', replicate 200 (CHR 0xE9) @ ''.tmp-0123456789ab'']"
    by (simp add: tooLong_def utf8Length_append utf8Length_replicate)
  have dir: "userDir \<lparr>baseDir = [''data'', ''users''], quotaBytes = 800 * MB\<rparr> ''1''
               = [''data'', ''users'', ''1'']"
    by (simp add: userDir_def pathJoin_def joinSeg_def)
  have short: "\<not> tooLong [''data'', ''users'', ''1'']"
    by (simp add: tooLong_def utf8Length_def)
  show ?thesis
    using saveFileFromStream_name_too_long
      [where cfg = "\<lparr>baseDir = [''data'', ''users''], quotaBytes = 800 * MB\<rparr>"
         and userId = "''1''" and filename = "replicate 200 (CHR 0xE9)" and now = 0
         and rnd = "''0123456789ab''"
         and es = "[(''big.bin'', File (replicate (799 * MB) 0))]"
         and fs = "Dir [(''data'', Dir [(''users'',
              Dir [(''1'', Dir [(''big.bin'', File (replicate (799 * MB) 0))])])])]"
         and stream = "Stream [replicate (2 * MB) 0] False"]
    unfolding tmp dir
    by (simp add: long short)
qed


text \<open>
  C3 (as amended).  For every user whose directory already uses 799 MB, attempting to save
  a 2 MB file against an 800 MB quota fails with a quota-exceeded condition, and after the
  failed save the file system, hence the user's stored files and total used bytes, is what
  it was before, for both \<open>saveFileFromBuffer\<close> and \<open>saveFileFromStream\<close>.
  \<open>saveFileFromBuffer\<close> performs no write: its only call is the \<open>mkdir\<close> of the
  user's directory.  \<open>saveFileFromStream\<close> does write: after the \<open>mkdir\<close> it writes
  the whole of the data to its temporary file, and unlinks that file when the quota check
  fails; these three calls are all it makes.  For \<open>saveFileFromStream\<close> the stream is
  taken to end without error, the random temporary name to be unused, and the path of the
  temporary file to be within the name limits of the file system.
\<close>

theorem C3_quota_exceeded_no_write:
  assumes "quotaBytes cfg = 800 * MB"
    and "usedBytes cfg fs userId = Inr (799 * MB)"
    and "length buf = 2 * MB"
    and "sum_list (map length (chunks stream)) = 2 * MB" and "\<not> fails stream"
    and "lookup fs (tmpPath cfg userId filename now rnd) = None"
    and "\<not> tooLong (tmpPath cfg userId filename now rnd)"
  shows "(case saveFileFromBuffer cfg fs now userId filename buf of
            (r, fs', ops) \<Rightarrow>
              isQuotaExceeded r \<and> fs' = fs \<and> usedBytes cfg fs' userId = Inr (799 * MB)
              \<and> ops = [MkdirOp (userDir cfg userId)] \<and> \<not> list_ex isWrite ops)
       \<and> (case saveFileFromStream cfg fs now rnd userId filename stream of
            (r, fs', ops) \<Rightarrow>
              isQuotaExceeded r \<and> fs' = fs \<and> usedBytes cfg fs' userId = Inr (799 * MB)
              \<and> ops = [MkdirOp (userDir cfg userId),
                       WriteOp (tmpPath cfg userId filename now rnd) (concat (chunks stream)),
                       UnlinkOp (tmpPath cfg userId filename now rnd)])"
proof -
  have pos: "0 < 799 * MB" by (simp add: MB_def)
  from assms(1,3) have "quotaBytes cfg < 799 * MB + length buf" by (simp add: MB_def)
  from saveFileFromBuffer_over_quota [OF assms(2) pos this, of now filename] assms(2)
  have b: "case saveFileFromBuffer cfg fs now userId filename buf of
            (r, fs', ops) \<Rightarrow>
              isQuotaExceeded r \<and> fs' = fs \<and> usedBytes cfg fs' userId = Inr (799 * MB)
              \<and> ops = [MkdirOp (userDir cfg userId)] \<and> \<not> list_ex isWrite ops"
    by (simp add: isQuotaExceeded_def)
  from assms(1,4) have
    "quotaBytes cfg < 799 * MB + sum_list (map length (chunks stream))"
    by (simp add: MB_def)
  from saveFileFromStream_over_quota [OF assms(2) pos this assms(5) assms(6) assms(7)] assms(2)
  have s: "case saveFileFromStream cfg fs now rnd userId filename stream of
            (r, fs', ops) \<Rightarrow>
              isQuotaExceeded r \<and> fs' = fs \<and> usedBytes cfg fs' userId = Inr (799 * MB)
              \<and> ops = [MkdirOp (userDir cfg userId),
                       WriteOp (tmpPath cfg userId filename now rnd) (concat (chunks stream)),
                       UnlinkOp (tmpPath cfg userId filename now rnd)]"
    by (auto simp: isQuotaExceeded_def)
  from b s show ?thesis ..
qed


theorem C3_quota_exceeded_no_write_witness:
  "(case saveFileFromBuffer \<lparr>baseDir = [''data'', ''users''], quotaBytes = 800 * MB\<rparr>
           (Dir [(''data'', Dir [(''users'',
              Dir [(''1'', Dir [(''big.bin'', File (replicate (799 * MB) 0))])])])])
           0 ''1'' ''new.bin'' (replicate (2 * MB) 0) of
      (r, fs', ops) \<Rightarrow>
        isQuotaExceeded r
        \<and> fs' = Dir [(''data'', Dir [(''users'',
              Dir [(''1'', Dir [(''big.bin'', File (replicate (799 * MB) 0))])])])]
        \<and> usedBytes \<lparr>baseDir = [''data'', ''users''], quotaBytes = 800 * MB\<rparr> fs' ''1''
            = Inr (799 * MB)
        \<and> ops = [MkdirOp [''data'', ''users'', ''1'']] \<and> \<not> list_ex isWrite ops)
   \<and> (case saveFileFromStream \<lparr>baseDir = [''data'', ''users''], quotaBytes = 800 * MB\<rparr>
           (Dir [(''data'', Dir [(''users'',
              Dir [(''1'', Dir [(''big.bin'', File (replicate (799 * MB) 0))])])])])
           0 ''0123456789ab'' ''1'' ''new.bin'' (Stream [replicate (2 * MB) 0] False) of
      (r, fs', ops) \<Rightarrow>
        isQuotaExceeded r
        \<and> fs' = Dir [(''data'', Dir [(''users'',
              Dir [(''1'', Dir [(''big.bin'', File (replicate (799 * MB) 0))])])])]
        \<and> usedBytes \<lparr>baseDir = [''data'', ''users''], quotaBytes = 800 * MB\<rparr> fs' ''1''
            = Inr (799 * MB)
        \<and> ops = [MkdirOp [''data'', ''users'', ''1''],
                 WriteOp [''data'', ''users'', ''1'', ''new.bin.tmp-0123456789ab'']
                   (replicate (2 * MB) 0),
                 UnlinkOp [''data'', ''users'', ''1'', ''new.bin.tmp-0123456789ab'']])"
proof -
  have dir: "userDir \<lparr>baseDir = [''data'', ''users''], quotaBytes = 800 * MB\<rparr> ''1''
               = [''data'', ''users'', ''1'']"
    by (simp add: userDir_def pathJoin_def joinSeg_def)
  have tmp: "tmpPath \<lparr>baseDir = [''data'', ''users''], quotaBytes = 800 * MB\<rparr> ''1''
               ''new.bin'' 0 ''0123456789ab''
             = [''data'', ''users'', ''1'', ''new.bin.tmp-0123456789ab'']"
    by (simp add: tmpPath_def userDir_def pathJoin_def joinSeg_def pathAppend_def
          safeFilename_def defaultName_def forbidden_def)
  have short: "\<not> tooLong [''data'', ''users'', ''1'']"
    "\<not> tooLong [''data'', ''users'', ''1'', ''new.bin.tmp-0123456789ab'']"
    by (simp_all add: tooLong_def utf8Length_def)
  have used: "usedBytes \<lparr>baseDir = [''data'', ''users''], quotaBytes = 800 * MB\<rparr>
       (Dir [(''data'', Dir [(''users'',
          Dir [(''1'', Dir [(''big.bin'', File (replicate (799 * MB) 0))])])])]) ''1''
     = Inr (799 * MB)"
    unfolding usedBytes_def dir by (simp add: short)
  show ?thesis
    using C3_quota_exceeded_no_write
      [where cfg = "\<lparr>baseDir = [''data'', ''users''], quotaBytes = 800 * MB\<rparr>"
         and fs = "Dir [(''data'', Dir [(''users'',
              Dir [(''1'', Dir [(''big.bin'', File (replicate (799 * MB) 0))])])])]"
         and userId = "''1''" and filename = "''new.bin''" and now = 0
         and rnd = "''0123456789ab''" and buf = "replicate (2 * MB) 0"
         and stream = "Stream [replicate (2 * MB) 0] False"]
    unfolding tmp dir
    by (simp add: used short)
qed


text \<open>
  C3 as stated fails.  In the scenario of the claim \<open>saveFileFromStream\<close> does
  perform a write, of the whole 2 MB, into the user's directory, before it checks the
  quota.  And when the random temporary name is the name of a stored file, that file is
  overwritten and then unlinked: the failed save leaves the user with one file and three
  bytes less.
\<close>

theorem C3_counterexample:
  "usedBytes \<lparr>baseDir = [''data'', ''users''], quotaBytes = 800 * MB\<rparr>
       (Dir [(''data'', Dir [(''users'',
          Dir [(''1'', Dir [(''big.bin'', File (replicate (799 * MB) 0))])])])]) ''1''
     = Inr (799 * MB)
   \<and> snd (snd (saveFileFromStream \<lparr>baseDir = [''data'', ''users''], quotaBytes = 800 * MB\<rparr>
       (Dir [(''data'', Dir [(''users'',
          Dir [(''1'', Dir [(''big.bin'', File (replicate (799 * MB) 0))])])])])
       0 ''0123456789ab'' ''1'' ''new.bin'' (Stream [replicate (2 * MB) 0] False)))
     = [MkdirOp [''data'', ''users'', ''1''],
        WriteOp [''data'', ''users'', ''1'', ''new.bin.tmp-0123456789ab''] (replicate (2 * MB) 0),
        UnlinkOp [''data'', ''users'', ''1'', ''new.bin.tmp-0123456789ab'']]
   \<and> usedBytes \<lparr>baseDir = [''data'', ''users''], quotaBytes = 800 * MB\<rparr>
       (Dir [(''data'', Dir [(''users'',
          Dir [(''1'', Dir [(''big.bin'', File (replicate (799 * MB - 3) 0)),
                            (''new.bin.tmp-0123456789ab'', File [1, 2, 3])])])])]) ''1''
     = Inr (799 * MB)
   \<and> fst (saveFileFromStream \<lparr>baseDir = [''data'', ''users''], quotaBytes = 800 * MB\<rparr>
       (Dir [(''data'', Dir [(''users'',
          Dir [(''1'', Dir [(''big.bin'', File (replicate (799 * MB - 3) 0)),
                            (''new.bin.tmp-0123456789ab'', File [1, 2, 3])])])])])
       0 ''0123456789ab'' ''1'' ''new.bin'' (Stream [replicate (2 * MB) 0] False))
     = Inl (QuotaExceeded 0)
   \<and> fst (snd (saveFileFromStream \<lparr>baseDir = [''data'', ''users''], quotaBytes = 800 * MB\<rparr>
       (Dir [(''data'', Dir [(''users'',
          Dir [(''1'', Dir [(''big.bin'', File (replicate (799 * MB - 3) 0)),
                            (''new.bin.tmp-0123456789ab'', File [1, 2, 3])])])])])
       0 ''0123456789ab'' ''1'' ''new.bin'' (Stream [replicate (2 * MB) 0] False)))
     = Dir [(''data'', Dir [(''users'',
          Dir [(''1'', Dir [(''big.bin'', File (replicate (799 * MB - 3) 0))])])])]"
  by (simp add: saveFileFromStream_def ensureUserDir_def usedBytes_def userDir_def
        pathJoin_def joinSeg_def pathAppend_def safeFilename_def defaultName_def
        forbidden_def unlinkQuiet_def Let_def MB_def mkdir_def writeFile_def unlink_def
        tooLong_def utf8Length_def)

lemma safeFilename_length: "length (safeFilename s) \<le> 200"
  by (simp add: safeFilename_def)

lemma dest_directlyInside:
  assumes "safeFilename s \<notin> {[], ''.'', ''..''}"
  shows "directlyInside d (pathJoin d (safeFilename s))"
  using assms by (simp add: pathJoin_safe joinSeg_def directlyInside_def)

text \<open>
  C10.  The claim is that for every user and every file name both save functions write
  only a path directly inside the user's directory.  \<open>safeFilename\<close> replaces every
  forbidden character and truncates to 200 characters, but it leaves the names \<open>.\<close>
  and \<open>..\<close> as they are.  For the file name \<open>..\<close> the destination is the base
  directory itself: \<open>saveFileFromStream\<close> writes its temporary file next to the base
  directory, and \<open>saveFileFromBuffer\<close> attempts to write the base directory.
\<close>

theorem C10_dotdot_leaves_user_directory:
  "snd (snd (saveFileFromStream \<lparr>baseDir = [''data'', ''users''], quotaBytes = DEFAULT_QUOTA\<rparr>
       (Dir [(''data'', Dir [(''users'', Dir [(''1'', Dir [])])])])
       0 ''abcdef012345'' ''1'' ''..'' (Stream [[7, 8]] False)))
     = [MkdirOp [''data'', ''users'', ''1''],
        WriteOp [''data'', ''users.tmp-abcdef012345''] [7, 8],
        RenameOp [''data'', ''users.tmp-abcdef012345''] [''data'', ''users''],
        UnlinkOp [''data'', ''users.tmp-abcdef012345'']]
   \<and> snd (snd (saveFileFromBuffer \<lparr>baseDir = [''data'', ''users''], quotaBytes = DEFAULT_QUOTA\<rparr>
       (Dir [(''data'', Dir [(''users'', Dir [(''1'', Dir [])])])])
       0 ''1'' ''..'' [7, 8]))
     = [MkdirOp [''data'', ''users'', ''1''], WriteOp [''data'', ''users''] [7, 8]]
   \<and> userDir \<lparr>baseDir = [''data'', ''users''], quotaBytes = DEFAULT_QUOTA\<rparr> ''1''
     = [''data'', ''users'', ''1'']
   \<and> \<not> directlyInside [''data'', ''users'', ''1''] [''data'', ''users.tmp-abcdef012345'']
   \<and> \<not> directlyInside [''data'', ''users'', ''1''] [''data'', ''users'']"
  by (simp add: saveFileFromStream_def saveFileFromBuffer_def ensureUserDir_def userDir_def
        pathJoin_def joinSeg_def pathAppend_def safeFilename_def defaultName_def forbidden_def
        usedBytes_def unlinkQuiet_def directlyInside_def DEFAULT_QUOTA_def Let_def
        mkdir_def writeFile_def unlink_def rename_def tooLong_def utf8Length_def)

theorem C10_dotdot_leaves_user_directory_witness:
  "hd (tl (snd (snd (saveFileFromStream
       \<lparr>baseDir = [''data'', ''users''], quotaBytes = DEFAULT_QUOTA\<rparr>
       (Dir [(''data'', Dir [(''users'', Dir [(''1'', Dir [])])])])
       0 ''abcdef012345'' ''1'' ''..'' (Stream [[7, 8]] False)))))
     = WriteOp [''data'', ''users.tmp-abcdef012345''] [7, 8]"
  using C10_dotdot_leaves_user_directory by simp

section \<open>Exit codes of the command-line utilities\<close>

lemma deployCommands_missing_token:
  "\<not> truthy (BOT_TOKEN env) \<Longrightarrow> deployCommands env help toggleB firewallB appInfo put = 1"
  by (simp add: deployCommands_def)

lemma deployCommands_get_fails:
  "deployCommands env help toggleB firewallB (Inl err) put = 1"
  by (simp add: deployCommands_def Let_def)

lemma deployCommands_put_fails:
  "(\<And>r cs. put r cs = Inl err) \<Longrightarrow> deployCommands env help toggleB firewallB appInfo put = 1"
  by (simp add: deployCommands_def Let_def split: sum.splits option.splits)

lemma deployCommands_exit_code:
  "deployCommands env help toggleB firewallB appInfo put \<in> {0, 1}"
  by (simp add: deployCommands_def Let_def split: sum.splits option.splits)

lemma removeCommands_missing_credentials:
  "\<not> truthy (BOT_TOKEN env) \<or> \<not> truthy (CLIENT_ID env)
     \<Longrightarrow> removeCommands env getCommands del = (1, MissingCredentials)"
  by (simp add: removeCommands_def)

lemma removeCommands_with_credentials:
  "truthy (BOT_TOKEN env) \<Longrightarrow> truthy (CLIENT_ID env)
     \<Longrightarrow> fst (removeCommands env getCommands del) = 0"
  by (simp add: removeCommands_def Let_def split: sum.splits)

text \<open>
  C8.  The claim is that each utility exits with code 1 when credentials are missing and
  whenever the registration or deletion fails, and with code 0 on success.
  deploy-commands.js does so.  remove-commands.js, with both credentials set, ends with
  exit code 0 also when fetching the commands is rejected and when a deletion is rejected:
  its \<^verbatim>\<open>catch\<close> block logs the failure and, unlike its sibling's, does not call
  \<^verbatim>\<open>process.exit(1)\<close>.
\<close>

theorem C8_remove_failure_exits_zero:
  "removeCommands \<lparr>BOT_TOKEN = Some ''token'', CLIENT_ID = Some ''42'', GUILD_ID = None\<rparr>
      (Inl ''request failed'') (\<lambda>c. True)
     = (0, FailedToRemove)
   \<and> removeCommands \<lparr>BOT_TOKEN = Some ''token'', CLIENT_ID = Some ''42'', GUILD_ID = None\<rparr>
      (Inr [\<lparr>c_id = ''7'', c_name = ''toggle''\<rparr>]) (\<lambda>c. False)
     = (0, FailedToRemove)
   \<and> deployCommands \<lparr>BOT_TOKEN = Some ''token'', CLIENT_ID = Some ''42'', GUILD_ID = None\<rparr>
      None None None (Inl ''request failed'') (\<lambda>r cs. Inr 1)
     = 1"
  by (simp add: removeCommands_def deployCommands_def)

theorem C8_remove_failure_exits_zero_witness:
  "fst (removeCommands \<lparr>BOT_TOKEN = Some ''token'', CLIENT_ID = Some ''42'', GUILD_ID = None\<rparr>
      (Inl ''request failed'') (\<lambda>c. True))
     = 0"
  using C8_remove_failure_exits_zero by simp

end
